theory Spec2Isabelle
  imports Main "HOL-Library.Word" "HOL-Library.Multiset"
begin

section \<open>Data model\<close>

text \<open>
  The mock DNS server of go-mockdns: the zone store, the mutation operations
  \<open>AppendRR\<close> and \<open>RemoveRR\<close>, and the request handler \<open>ServeDNS\<close> with its helpers.
  Go's \<open>uint16\<close> and \<open>uint32\<close> are words, Go strings are byte strings, a map is a partial
  function, a panic and an error are values.
\<close>

type_synonym uint16 = "16 word"
type_synonym uint32 = "32 word"
type_synonym IP = "8 word list"

text \<open>
  A Go \<open>error\<close>. \<open>DNSError n nf\<close> is an error in whose chain \<open>errors.As\<close> finds a
  \<open>*net.DNSError\<close> with \<open>Name = n\<close> and \<open>IsNotFound = nf\<close>; \<open>OtherError msg\<close> is any
  other error (\<open>errors.New(msg)\<close>).
\<close>

datatype error = DNSError (err_Name: string) (err_IsNotFound: bool) | OtherError string

record MX =
  MX_Host :: string
  MX_Pref :: uint16

record NS =
  NS_Host :: string

record SRV =
  SRV_Target :: string
  SRV_Port :: uint16
  SRV_Priority :: uint16
  SRV_Weight :: uint16

record RR_Header =
  Hdr_Name :: string
  Hdr_Rrtype :: uint16
  Hdr_Class :: uint16
  Hdr_Ttl :: uint32

text \<open>
  The resource records the handler builds (\<open>dns.SOA\<close>, \<open>dns.CNAME\<close>, ...). \<open>RR_Opaque\<close> is a
  record of a type the server does not model, kept in a zone's \<open>Misc\<close> bucket.
\<close>

datatype RR =
    RR_SOA RR_Header (soa_Ns: string) (soa_Mbox: string) (soa_Serial: uint32)
      (soa_Refresh: uint32) (soa_Retry: uint32) (soa_Expire: uint32) (soa_Minttl: uint32)
  | RR_CNAME RR_Header (cname_Target: string)
  | RR_A RR_Header IP
  | RR_AAAA RR_Header IP
  | RR_MX RR_Header uint16 string
  | RR_NS RR_Header string
  | RR_SRV RR_Header (rr_Priority: uint16) (rr_Port: uint16) (rr_Weight: uint16) (rr_Target: string)
  | RR_TXT RR_Header "string list"
  | RR_PTR RR_Header string
  | RR_Opaque RR_Header string

text \<open>
  \<open>type Zone struct\<close>. The fields \<open>Err\<close>, \<open>A\<close>, \<open>AAAA\<close>, \<open>TXT\<close>, \<open>PTR\<close>, \<open>CNAME\<close>, \<open>MX\<close>,
  \<open>NS\<close>, \<open>SRV\<close> are those of the declaration; \<open>Misc\<close> (\<open>map[dns.Type][]dns.RR\<close>) is the
  field the server reads as \<open>rzone.Misc[dns.Type(q.Qtype)]\<close> and \<open>len(zone.Misc)\<close>, kept as
  an association list with one pair per key.
\<close>

record Zone =
  Err :: "error option"
  A :: "string list"
  AAAA :: "string list"
  TXT :: "string list"
  PTR :: "string list"
  CNAME :: string
  MX :: "MX list"
  NS :: "NS list"
  SRV :: "SRV list"
  Misc :: "(uint16 \<times> RR list) list"

text \<open>The zero value of \<open>Zone\<close>: what \<open>s.r.Zones[name]\<close> yields for a missing key.\<close>

definition zeroZone :: Zone where
  "zeroZone = \<lparr>Err = None, A = [], AAAA = [], TXT = [], PTR = [], CNAME = [],
     MX = [], NS = [], SRV = [], Misc = []\<rparr>"

record Resolver =
  Zones :: "string \<rightharpoonup> Zone"

text \<open>
  \<open>type Server struct\<close>: the resolver and the \<open>Authoritative\<close> switch. The lock, the two
  listeners, \<open>stopped\<close> and the logger play no part in what a handler call returns.
\<close>

record Server =
  r :: Resolver
  Authoritative :: bool

record Question =
  Q_Name :: string
  Qtype :: uint16
  Qclass :: uint16

text \<open>\<open>dns.Msg\<close>: the header fields of \<open>MsgHdr\<close> followed by the four sections.\<close>

record Msg =
  Id :: uint16
  Response :: bool
  Opcode :: int
  Msg_Authoritative :: bool
  Truncated :: bool
  RecursionDesired :: bool
  RecursionAvailable :: bool
  Zero :: bool
  AuthenticatedData :: bool
  CheckingDisabled :: bool
  Rcode :: int
  Compress :: bool
  Question :: "Question list"
  Answer :: "RR list"
  Ns :: "RR list"
  Extra :: "RR list"

text \<open>\<open>new(dns.Msg)\<close>.\<close>

definition newMsg :: Msg where
  "newMsg = \<lparr>Id = 0, Response = False, Opcode = 0, Msg_Authoritative = False,
     Truncated = False, RecursionDesired = False, RecursionAvailable = False, Zero = False,
     AuthenticatedData = False, CheckingDisabled = False, Rcode = 0, Compress = False,
     Question = [], Answer = [], Ns = [], Extra = []\<rparr>"

subsection \<open>Constants of the DNS library\<close>

definition TypeA :: uint16 where "TypeA = 1"
definition TypeNS :: uint16 where "TypeNS = 2"
definition TypeCNAME :: uint16 where "TypeCNAME = 5"
definition TypeSOA :: uint16 where "TypeSOA = 6"
definition TypePTR :: uint16 where "TypePTR = 12"
definition TypeMX :: uint16 where "TypeMX = 15"
definition TypeTXT :: uint16 where "TypeTXT = 16"
definition TypeAAAA :: uint16 where "TypeAAAA = 28"
definition TypeSRV :: uint16 where "TypeSRV = 33"

definition ClassINET :: uint16 where "ClassINET = 1"

definition OpcodeQuery :: int where "OpcodeQuery = 0"

definition RcodeSuccess :: int where "RcodeSuccess = 0"
definition RcodeServerFailure :: int where "RcodeServerFailure = 2"
definition RcodeNameError :: int where "RcodeNameError = 3"
definition RcodeNotImplemented :: int where "RcodeNotImplemented = 4"
definition RcodeRefused :: int where "RcodeRefused = 5"

section \<open>Library functions\<close>

text \<open>
  Functions of Go's standard library and of \<open>github.com/miekg/dns\<close> that the server calls
  and whose results depend on tables outside this repository are parameters:
  \<open>dns.Fqdn\<close>, \<open>strings.ToLower\<close> and \<open>net.ParseIP\<close> (\<open>None\<close> is the \<open>nil\<close> result).
\<close>

record lib =
  Fqdn :: "string \<Rightarrow> string"
  ToLower :: "string \<Rightarrow> string"
  ParseIP :: "string \<Rightarrow> IP option"

text \<open>\<open>strings.HasSuffix(name, ".")\<close>.\<close>

definition HasSuffixDot :: "string \<Rightarrow> bool" where
  "HasSuffixDot name = (case rev name of [] \<Rightarrow> False | c # _ \<Rightarrow> c = CHR ''.'')"

text \<open>
  \<open>strings.SplitN(s, " ", n)\<close> for \<open>n \<ge> 0\<close>: at most \<open>n\<close> pieces, the last one the
  unsplit remainder; \<open>n = 0\<close> gives no piece.
\<close>

fun SplitN :: "string \<Rightarrow> nat \<Rightarrow> string list" where
  "SplitN s 0 = []"
| "SplitN s (Suc 0) = [s]"
| "SplitN s (Suc (Suc n)) =
     (case dropWhile (\<lambda>c. c \<noteq> CHR '' '') s of
        [] \<Rightarrow> [s]
      | _ # rest \<Rightarrow> takeWhile (\<lambda>c. c \<noteq> CHR '' '') s # SplitN rest (Suc n))"

text \<open>
  \<open>strconv.Atoi\<close> on a 64-bit platform: an optional sign, then one or more decimal
  digits, and a value that fits \<open>int64\<close>; anything else is an error (\<open>None\<close>).
\<close>

definition isDigit :: "char \<Rightarrow> bool" where
  "isDigit c = (48 \<le> (of_char c :: nat) \<and> (of_char c :: nat) \<le> 57)"

definition digitVal :: "char \<Rightarrow> int" where
  "digitVal c = int (of_char c) - 48"

definition decimal :: "string \<Rightarrow> int" where
  "decimal ds = foldl (\<lambda>n c. n * 10 + digitVal c) 0 ds"

definition Atoi :: "string \<Rightarrow> int option" where
  "Atoi s =
     (let neg = (case s of [] \<Rightarrow> False | c # _ \<Rightarrow> c = CHR ''-'');
          ds = (case s of [] \<Rightarrow> [] | c # cs \<Rightarrow> if c = CHR ''-'' \<or> c = CHR ''+'' then cs else s)
      in if ds = [] then None
         else if list_all isDigit ds then
           (let v = (if neg then - decimal ds else decimal ds)
            in if - (2 ^ 63) \<le> v \<and> v < 2 ^ 63 then Some v else None)
         else None)"

text \<open>The conversion \<open>uint16(n)\<close> of an \<open>int\<close>: the low 16 bits.\<close>

definition to_uint16 :: "int \<Rightarrow> uint16" where
  "to_uint16 n = word_of_int n"

section \<open>Mutation of the zone store\<close>

text \<open>
  Both mutating operations start with
  \<^verbatim>\<open>if !strings.HasSuffix(name, ".") { name = name + "." }\<close>.
\<close>

definition dotted :: "string \<Rightarrow> string" where
  "dotted name = (if HasSuffixDot name then name else name @ ''.'')"

text \<open>
  \<open>zone := s.r.Zones[name]\<close> (the zero value for a missing key),
  \<open>s.r.Zones[name] = zone\<close> and \<open>delete(s.r.Zones, name)\<close>.
\<close>

definition getZone :: "Server \<Rightarrow> string \<Rightarrow> Zone" where
  "getZone s name = (case Zones (r s) name of None \<Rightarrow> zeroZone | Some z \<Rightarrow> z)"

definition setZone :: "Server \<Rightarrow> string \<Rightarrow> Zone \<Rightarrow> Server" where
  "setZone s name z = s\<lparr>r := (r s)\<lparr>Zones := (Zones (r s))(name \<mapsto> z)\<rparr>\<rparr>"

definition deleteZone :: "Server \<Rightarrow> string \<Rightarrow> Server" where
  "deleteZone s name = s\<lparr>r := (r s)\<lparr>Zones := (Zones (r s))(name := None)\<rparr>\<rparr>"

text \<open>
  The \<open>case dns.TypeMX\<close> of \<open>AppendRR\<close> up to the record it appends:
  \<open>strings.SplitN(rrData, " ", 2)\<close>, the length check, \<open>strconv.Atoi(parts[0])\<close> and the
  \<open>net.MX\<close> literal with \<open>Pref: uint16(pref)\<close>.
\<close>

definition parseMX :: "string \<Rightarrow> error + MX" where
  "parseMX rrData =
     (let parts = SplitN rrData 2
      in if length parts \<noteq> 2 then Inl (OtherError ''invalid MX rrData format'')
         else case Atoi (parts ! 0) of
                None \<Rightarrow> Inl (OtherError ''invalid MX priority'')
              | Some pref \<Rightarrow> Inr \<lparr>MX_Host = parts ! 1, MX_Pref = to_uint16 pref\<rparr>)"

text \<open>
  The \<open>case dns.TypeSRV\<close> of \<open>AppendRR\<close> up to the record it appends. The error for a
  malformed weight reads \<open>invalid SRV priority\<close> in the source too.
\<close>

definition parseSRV :: "string \<Rightarrow> error + SRV" where
  "parseSRV rrData =
     (let parts = SplitN rrData 4
      in if length parts \<noteq> 4 then Inl (OtherError ''invalid SRV rrData format'')
         else case Atoi (parts ! 0) of
                None \<Rightarrow> Inl (OtherError ''invalid SRV priority'')
              | Some priority \<Rightarrow>
                 (case Atoi (parts ! 1) of
                    None \<Rightarrow> Inl (OtherError ''invalid SRV priority'')
                  | Some weight \<Rightarrow>
                     (case Atoi (parts ! 2) of
                        None \<Rightarrow> Inl (OtherError ''invalid SRV port'')
                      | Some port \<Rightarrow>
                          Inr \<lparr>SRV_Target = parts ! 3, SRV_Port = to_uint16 port,
                               SRV_Priority = to_uint16 priority,
                               SRV_Weight = to_uint16 weight\<rparr>)))"

text \<open>
  \<open>func (s *Server) AppendRR(name string, rrType uint16, rrData string) error\<close>: the
  server after the call, and the error returned (\<open>None\<close> is \<open>nil\<close>). An error return
  leaves before \<open>s.r.Zones[name] = zone\<close>, so the store is unchanged.
\<close>

definition AppendRR :: "Server \<Rightarrow> string \<Rightarrow> uint16 \<Rightarrow> string \<Rightarrow> Server \<times> error option" where
  "AppendRR s name0 rrType rrData =
     (let name = dotted name0;
          zone = getZone s name
      in if rrType = TypeA then (setZone s name (zone\<lparr>A := A zone @ [rrData]\<rparr>), None)
         else if rrType = TypeAAAA then (setZone s name (zone\<lparr>AAAA := AAAA zone @ [rrData]\<rparr>), None)
         else if rrType = TypeTXT then (setZone s name (zone\<lparr>TXT := TXT zone @ [rrData]\<rparr>), None)
         else if rrType = TypePTR then (setZone s name (zone\<lparr>PTR := PTR zone @ [rrData]\<rparr>), None)
         else if rrType = TypeCNAME then (setZone s name (zone\<lparr>CNAME := rrData\<rparr>), None)
         else if rrType = TypeMX then
           (case parseMX rrData of
              Inl e \<Rightarrow> (s, Some e)
            | Inr mx \<Rightarrow> (setZone s name (zone\<lparr>MX := MX zone @ [mx]\<rparr>), None))
         else if rrType = TypeNS then
           (setZone s name (zone\<lparr>NS := NS zone @ [\<lparr>NS_Host = rrData\<rparr>]\<rparr>), None)
         else if rrType = TypeSRV then
           (case parseSRV rrData of
              Inl e \<Rightarrow> (s, Some e)
            | Inr srv \<Rightarrow> (setZone s name (zone\<lparr>SRV := SRV zone @ [srv]\<rparr>), None))
         else (s, Some (OtherError ''RR type not supported'')))"

text \<open>\<open>func isZoneEmpty(zone Zone) bool\<close>.\<close>

definition isZoneEmpty :: "Zone \<Rightarrow> bool" where
  "isZoneEmpty zone =
     (length (A zone) = 0 \<and> length (AAAA zone) = 0 \<and> length (TXT zone) = 0 \<and>
      length (PTR zone) = 0 \<and> CNAME zone = [] \<and> length (MX zone) = 0 \<and>
      length (NS zone) = 0 \<and> length (SRV zone) = 0 \<and> length (Misc zone) = 0)"

text \<open>The \<open>switch rrType\<close> of \<open>RemoveRR\<close>: the zone with the records of that type dropped.\<close>

definition clearRR :: "Zone \<Rightarrow> uint16 \<Rightarrow> Zone" where
  "clearRR zone rrType =
     (if rrType = TypeA then zone\<lparr>A := []\<rparr>
      else if rrType = TypeAAAA then zone\<lparr>AAAA := []\<rparr>
      else if rrType = TypeTXT then zone\<lparr>TXT := []\<rparr>
      else if rrType = TypePTR then zone\<lparr>PTR := []\<rparr>
      else if rrType = TypeCNAME then zone\<lparr>CNAME := []\<rparr>
      else if rrType = TypeMX then zone\<lparr>MX := []\<rparr>
      else if rrType = TypeNS then zone\<lparr>NS := []\<rparr>
      else if rrType = TypeSRV then zone\<lparr>SRV := []\<rparr>
      else zone)"

text \<open>\<open>func (s *Server) RemoveRR(name string, rrType uint16)\<close>.\<close>

definition RemoveRR :: "Server \<Rightarrow> string \<Rightarrow> uint16 \<Rightarrow> Server" where
  "RemoveRR s name0 rrType =
     (let name = dotted name0;
          zone = clearRR (getZone s name) rrType
      in if isZoneEmpty zone then deleteZone s name else setZone s name zone)"

section \<open>The request handler\<close>

text \<open>
  Modelled from the spec: \<open>notFound\<close> is defined in the repository's resolver file, which
  is not among the sources; the spec's \<open>NotFound(name)\<close> is an error carrying the name,
  and \<open>writeErr\<close> and the tests read it as a \<open>*net.DNSError\<close> with \<open>IsNotFound\<close> set.
\<close>

definition notFound :: "string \<Rightarrow> error" where
  "notFound host = DNSError host True"

text \<open>The SOA record that \<open>writeErr\<close> and the SOA branch of \<open>ServeDNS\<close> both build.\<close>

definition mkSOA :: "string \<Rightarrow> RR" where
  "mkSOA name =
     RR_SOA \<lparr>Hdr_Name = name, Hdr_Rrtype = TypeSOA, Hdr_Class = ClassINET, Hdr_Ttl = 9999\<rparr>
       ''localhost.'' ''hostmaster.localhost.'' 1 900 900 1800 60"

text \<open>
  \<open>func (s *Server) writeErr(w dns.ResponseWriter, reply *dns.Msg, err error)\<close>: the
  message handed to \<open>w.WriteMsg\<close>. The assignment \<open>reply.Answer = nil\<close> is commented out
  in the source.
\<close>

definition writeErr :: "Server \<Rightarrow> Msg \<Rightarrow> error \<Rightarrow> Msg" where
  "writeErr s reply0 err =
     (let reply = reply0\<lparr>Rcode := RcodeServerFailure, RecursionAvailable := False, Extra := []\<rparr>
      in case err of
           DNSError name True \<Rightarrow>
             reply\<lparr>Rcode := RcodeNameError, RecursionAvailable := True, Ns := [mkSOA name]\<rparr>
         | _ \<Rightarrow> reply)"

text \<open>\<open>func mkCname(name, cname string) *dns.CNAME\<close>.\<close>

definition mkCname :: "string \<Rightarrow> string \<Rightarrow> RR" where
  "mkCname name cname =
     RR_CNAME \<lparr>Hdr_Name = name, Hdr_Rrtype = TypeCNAME, Hdr_Class = ClassINET, Hdr_Ttl = 9999\<rparr>
       cname"

text \<open>\<open>func splitTXT(s string) []string\<close>: pieces of at most 255 bytes.\<close>

definition splitTXT :: "string \<Rightarrow> string list" where
  "splitTXT s =
     map (\<lambda>i. take (min (length s) ((i + 1) * 255) - i * 255) (drop (i * 255) s))
       [0 ..< length s div 255 + 1]"

text \<open>\<open>func appendCNAMEs(answer []dns.RR, cnames []string, rname string) []dns.RR\<close>.\<close>

fun appendCNAMEs :: "RR list \<Rightarrow> string list \<Rightarrow> string \<Rightarrow> RR list" where
  "appendCNAMEs answer [] rname = answer"
| "appendCNAMEs answer (cname # cnames) rname =
     appendCNAMEs (answer @ [mkCname rname cname]) cnames cname"

text \<open>
  \<open>func (dns *Msg) SetReply(request *Msg) *Msg\<close> and
  \<open>func (dns *Msg) SetRcode(request *Msg, rcode int) *Msg\<close> of the DNS library: the
  reply takes the request's id, opcode and first question; for the standard opcode it
  also copies the recursion-desired and checking-disabled bits.
\<close>

definition SetReply :: "Msg \<Rightarrow> Msg \<Rightarrow> Msg" where
  "SetReply d request =
     (let d1 = d\<lparr>Id := Id request, Response := True, Opcode := Opcode request\<rparr>;
          d2 = (if Opcode d1 = OpcodeQuery
                then d1\<lparr>RecursionDesired := RecursionDesired request,
                        CheckingDisabled := CheckingDisabled request\<rparr>
                else d1);
          d3 = d2\<lparr>Rcode := RcodeSuccess\<rparr>
      in case Question request of [] \<Rightarrow> d3 | q # _ \<Rightarrow> d3\<lparr>Question := [q]\<rparr>)"

definition SetRcode :: "Msg \<Rightarrow> Msg \<Rightarrow> int \<Rightarrow> Msg" where
  "SetRcode d request rcode = (SetReply d request)\<lparr>Rcode := rcode\<rparr>"

text \<open>
  The lookup methods of \<open>Resolver\<close> (\<open>lookupA\<close>, \<open>lookupAAAA\<close>, \<open>lookupMX\<close>, \<open>lookupNS\<close>,
  \<open>lookupSRV\<close>, \<open>lookupTXT\<close>) live in the repository's resolver file, which is not among
  the sources. The handler takes them as parameters with the shape of their call sites:
  \<open>ad, cnames, rname, values, err := s.r.lookupX(ctx, name)\<close>.
\<close>

type_synonym 'v lookup = "Resolver \<Rightarrow> string \<Rightarrow> bool \<times> string list \<times> string \<times> 'v list \<times> error option"

record resolver_methods =
  lookupA :: "string lookup"
  lookupAAAA :: "string lookup"
  lookupMX :: "MX lookup"
  lookupNS :: "NS lookup"
  lookupSRV :: "SRV lookup"
  lookupTXT :: "string lookup"

text \<open>
  How a \<open>case\<close> of the handler's \<open>switch q.Qtype\<close> ends: it falls through to the final
  \<open>w.WriteMsg(reply)\<close>, it calls \<open>s.writeErr(w, reply, err)\<close> and returns, or it panics.
\<close>

datatype step = Done Msg | Failed Msg error | Panicked string

text \<open>What a call of \<open>ServeDNS\<close> does: it writes one message, or it panics.\<close>

datatype outcome = Wrote Msg | Panic string

text \<open>
  The \<open>for _, v := range values\<close> loop of a case: one record per value, appended to the
  answer. \<open>None\<close> from \<open>mk\<close> is the \<open>panic("ServeDNS: malformed IP in records")\<close> of the
  two address cases.
\<close>

fun appendRRs :: "RR list \<Rightarrow> ('v \<Rightarrow> RR option) \<Rightarrow> 'v list \<Rightarrow> RR list option" where
  "appendRRs answer mk [] = Some answer"
| "appendRRs answer mk (v # vs) =
     (case mk v of None \<Rightarrow> None | Some rr \<Rightarrow> appendRRs (answer @ [rr]) mk vs)"

text \<open>
  The body shared by the cases \<open>TypeA\<close>, \<open>TypeAAAA\<close>, \<open>TypeMX\<close>, \<open>TypeNS\<close>, \<open>TypeSRV\<close> and
  \<open>TypeTXT\<close>: store the \<open>ad\<close> bit, append the CNAME chain, then either report the
  lookup error or append one record per value, owned by \<open>rname\<close>.
\<close>

definition resolved ::
  "Msg \<Rightarrow> bool \<times> string list \<times> string \<times> 'v list \<times> error option \<Rightarrow>
   (string \<Rightarrow> 'v \<Rightarrow> RR option) \<Rightarrow> step" where
  "resolved reply0 res mk =
     (case res of (ad, cnames, rname, vals, err) \<Rightarrow>
        (let reply1 = reply0\<lparr>AuthenticatedData := ad\<rparr>;
             reply = reply1\<lparr>Answer := appendCNAMEs (Answer reply1) cnames rname\<rparr>
         in case err of
              Some e \<Rightarrow> Failed reply e
            | None \<Rightarrow>
               (case appendRRs (Answer reply) (mk rname) vals of
                  None \<Rightarrow> Panicked ''ServeDNS: malformed IP in records''
                | Some ans \<Rightarrow> Done (reply\<lparr>Answer := ans\<rparr>))))"

definition hdr :: "string \<Rightarrow> uint16 \<Rightarrow> RR_Header" where
  "hdr name t = \<lparr>Hdr_Name = name, Hdr_Rrtype = t, Hdr_Class = ClassINET, Hdr_Ttl = 9999\<rparr>"

definition mkA :: "lib \<Rightarrow> string \<Rightarrow> string \<Rightarrow> RR option" where
  "mkA l rname addr = map_option (RR_A (hdr rname TypeA)) (ParseIP l addr)"

definition mkAAAA :: "lib \<Rightarrow> string \<Rightarrow> string \<Rightarrow> RR option" where
  "mkAAAA l rname addr = map_option (RR_AAAA (hdr rname TypeAAAA)) (ParseIP l addr)"

definition mkMX :: "string \<Rightarrow> MX \<Rightarrow> RR option" where
  "mkMX rname mx = Some (RR_MX (hdr rname TypeMX) (MX_Pref mx) (MX_Host mx))"

definition mkNS :: "string \<Rightarrow> NS \<Rightarrow> RR option" where
  "mkNS rname ns = Some (RR_NS (hdr rname TypeNS) (NS_Host ns))"

definition mkSRV :: "string \<Rightarrow> SRV \<Rightarrow> RR option" where
  "mkSRV rname srv =
     Some (RR_SRV (hdr rname TypeSRV) (SRV_Priority srv) (SRV_Port srv) (SRV_Weight srv)
       (SRV_Target srv))"

definition mkTXT :: "string \<Rightarrow> string \<Rightarrow> RR option" where
  "mkTXT rname txt = Some (RR_TXT (hdr rname TypeTXT) (splitTXT txt))"

definition mkPTR :: "string \<Rightarrow> string \<Rightarrow> RR" where
  "mkPTR qn name = RR_PTR (hdr qn TypePTR) name"

text \<open>
  \<open>rzone.Misc[dns.Type(q.Qtype)]\<close>: the bucket of that type, \<open>nil\<close> when there is none.
\<close>

definition miscOf :: "Zone \<Rightarrow> uint16 \<Rightarrow> RR list" where
  "miscOf z t = (case map_of (Misc z) t of None \<Rightarrow> [] | Some rrs \<Rightarrow> rrs)"

text \<open>
  The \<open>switch q.Qtype\<close> of \<open>ServeDNS\<close>. \<open>qname\<close> is
  \<open>strings.ToLower(dns.Fqdn(q.Name))\<close>; only the \<open>TypeA\<close> case passes it to the resolver,
  the other resolver cases pass \<open>q.Name\<close>.
\<close>

definition answerQuestion ::
  "lib \<Rightarrow> resolver_methods \<Rightarrow> Server \<Rightarrow> Question \<Rightarrow> string \<Rightarrow> Msg \<Rightarrow> step" where
  "answerQuestion l rm s q qname reply =
     (if Qtype q = TypeA then resolved reply (lookupA rm (r s) qname) (mkA l)
      else if Qtype q = TypeAAAA then resolved reply (lookupAAAA rm (r s) (Q_Name q)) (mkAAAA l)
      else if Qtype q = TypeMX then resolved reply (lookupMX rm (r s) (Q_Name q)) mkMX
      else if Qtype q = TypeNS then resolved reply (lookupNS rm (r s) (Q_Name q)) mkNS
      else if Qtype q = TypeSRV then resolved reply (lookupSRV rm (r s) (Q_Name q)) mkSRV
      else if Qtype q = TypeCNAME then
        (let rname = ToLower l (Fqdn l (Q_Name q))
         in case Zones (r s) rname of
              None \<Rightarrow> Failed reply (notFound rname)
            | Some rzone \<Rightarrow>
                if CNAME rzone = [] then Failed reply (notFound rname)
                else Done (reply\<lparr>Answer := Answer reply @ [mkCname rname (CNAME rzone)]\<rparr>))
      else if Qtype q = TypeTXT then resolved reply (lookupTXT rm (r s) (Q_Name q)) mkTXT
      else if Qtype q = TypePTR then
        (case Zones (r s) (Q_Name q) of
           None \<Rightarrow> Failed reply (notFound (Q_Name q))
         | Some rzone \<Rightarrow>
             Done (reply\<lparr>Answer := Answer reply @ map (mkPTR (Q_Name q)) (PTR rzone)\<rparr>))
      else if Qtype q = TypeSOA then Done (reply\<lparr>Answer := [mkSOA (Q_Name q)]\<rparr>)
      else
        (case Zones (r s) (Q_Name q) of
           None \<Rightarrow> Failed reply (notFound (Q_Name q))
         | Some rzone \<Rightarrow> Done (reply\<lparr>Answer := Answer reply @ miscOf rzone (Qtype q)\<rparr>)))"

text \<open>
  \<open>func (s *Server) ServeDNS(w dns.ResponseWriter, m *dns.Msg)\<close>. \<open>initReply\<close> is the
  reply after \<open>reply.SetReply(m)\<close> and the three assignments to the recursion-available
  and authoritative flags that follow it. \<open>m.Question[0]\<close> on an empty question section
  is Go's index-out-of-range panic.
\<close>

definition initReply :: "Server \<Rightarrow> Msg \<Rightarrow> Msg" where
  "initReply s m =
     (let reply0 = (SetReply newMsg m)\<lparr>RecursionAvailable := True\<rparr>
      in if Authoritative s
         then reply0\<lparr>Msg_Authoritative := True, RecursionAvailable := False\<rparr>
         else reply0)"

definition ServeDNS :: "lib \<Rightarrow> resolver_methods \<Rightarrow> Server \<Rightarrow> Msg \<Rightarrow> outcome" where
  "ServeDNS l rm s m =
     (if Opcode m \<noteq> OpcodeQuery then Wrote (SetRcode newMsg m RcodeRefused)
      else
        (let reply = initReply s m
         in case Question m of
              [] \<Rightarrow> Panic ''index out of range [0] with length 0''
            | q # _ \<Rightarrow>
               (let qname = ToLower l (Fqdn l (Q_Name q))
                in if Qclass q \<noteq> ClassINET then Wrote (SetRcode reply m RcodeNotImplemented)
                   else (case answerQuestion l rm s q qname reply of
                           Done rep \<Rightarrow> Wrote rep
                         | Failed rep err \<Rightarrow> Wrote (writeErr s rep err)
                         | Panicked msg \<Rightarrow> Panic msg))))"

section \<open>The resolution engine\<close>

text \<open>
  Modelled from the spec: the lookup algorithm of the resolver (the repository's resolver
  file is not among the sources). Section 4.2 of the spec, step 3: keep the \<open>chain\<close> of
  CNAME targets visited and the \<open>current\<close> name; an absent zone is \<open>NotFound(current)\<close>;
  a zone with \<open>Err\<close> set returns that error; a zone with a non-empty \<open>CNAME\<close> and an empty
  field of the requested type is followed; otherwise the field is returned, or
  \<open>NotFound(current)\<close> when it is empty. The walk is bounded: once \<open>bound\<close> zones have
  been visited the lookup fails with \<open>NotFound(current)\<close>. The result keeps the chain
  and the current name also on failure, since the handler reads them before the error.
\<close>

fun lookupChain ::
  "nat \<Rightarrow> (string \<rightharpoonup> Zone) \<Rightarrow> (Zone \<Rightarrow> 'v list) \<Rightarrow> string list \<Rightarrow> string \<Rightarrow>
   string list \<times> string \<times> (error + 'v list)" where
  "lookupChain 0 zones fld chain current = (chain, current, Inl (notFound current))"
| "lookupChain (Suc n) zones fld chain current =
     (case zones current of
        None \<Rightarrow> (chain, current, Inl (notFound current))
      | Some z \<Rightarrow>
         (case Err z of
            Some e \<Rightarrow> (chain, current, Inl e)
          | None \<Rightarrow>
              if CNAME z \<noteq> [] \<and> fld z = [] then lookupChain n zones fld (chain @ [CNAME z]) (CNAME z)
              else if fld z \<noteq> [] then (chain, current, Inr (fld z))
              else (chain, current, Inl (notFound current))))"

text \<open>
  Modelled from the spec: \<open>lookup(name, type)\<close> for a type other than CNAME, step 1
  (normalise the name to FQDN form, case-folded) followed by the walk.
\<close>

definition lookup ::
  "lib \<Rightarrow> nat \<Rightarrow> (string \<rightharpoonup> Zone) \<Rightarrow> (Zone \<Rightarrow> 'v list) \<Rightarrow> string \<Rightarrow>
   string list \<times> string \<times> (error + 'v list)" where
  "lookup l bound zones fld name = lookupChain bound zones fld [] (ToLower l (Fqdn l name))"

text \<open>
  Modelled from the spec: the address lookup of the in-process interface (\<open>LookupIP\<close> in
  the tests), with the family requested. Section 4.2: when both families are requested
  the A and AAAA results are merged, and the lookup fails with NotFound only if both
  families have no records; section 9: a configured error is an all-or-nothing
  short-circuit.
\<close>

datatype family = IP4 | IP6 | IPBoth

definition isNotFound :: "error \<Rightarrow> bool" where
  "isNotFound e = (case e of DNSError _ nf \<Rightarrow> nf | OtherError _ \<Rightarrow> False)"

definition mergeFamilies :: "error + string list \<Rightarrow> error + string list \<Rightarrow> error + string list" where
  "mergeFamilies r4 r6 =
     (case r4 of
        Inr v4 \<Rightarrow>
          (case r6 of
             Inr v6 \<Rightarrow> Inr (v4 @ v6)
           | Inl e6 \<Rightarrow> if isNotFound e6 then Inr v4 else Inl e6)
      | Inl e4 \<Rightarrow>
          if isNotFound e4 then (case r6 of Inr v6 \<Rightarrow> Inr v6 | Inl e6 \<Rightarrow> Inl e6)
          else Inl e4)"

definition LookupIP ::
  "lib \<Rightarrow> nat \<Rightarrow> (string \<rightharpoonup> Zone) \<Rightarrow> family \<Rightarrow> string \<Rightarrow> error + string list" where
  "LookupIP l bound zones network host =
     (case network of
        IP4 \<Rightarrow> snd (snd (lookup l bound zones A host))
      | IP6 \<Rightarrow> snd (snd (lookup l bound zones AAAA host))
      | IPBoth \<Rightarrow>
          mergeFamilies (snd (snd (lookup l bound zones A host)))
            (snd (snd (lookup l bound zones AAAA host))))"

text \<open>
  Modelled from the spec: the resolver methods the handler calls, built on the engine:
  the chain, the current name and the values, or the error. The spec has no
  authenticated-data bit, so \<open>ad\<close> is \<open>false\<close>.
\<close>

definition engineMethod ::
  "lib \<Rightarrow> nat \<Rightarrow> (Zone \<Rightarrow> 'v list) \<Rightarrow> 'v lookup" where
  "engineMethod l bound fld res name =
     (case lookup l bound (Zones res) fld name of
        (chain, current, Inl e) \<Rightarrow> (False, chain, current, [], Some e)
      | (chain, current, Inr vals) \<Rightarrow> (False, chain, current, vals, None))"

definition engineMethods :: "lib \<Rightarrow> nat \<Rightarrow> resolver_methods" where
  "engineMethods l bound =
     \<lparr>lookupA = engineMethod l bound A, lookupAAAA = engineMethod l bound AAAA,
      lookupMX = engineMethod l bound MX, lookupNS = engineMethod l bound NS,
      lookupSRV = engineMethod l bound SRV, lookupTXT = engineMethod l bound TXT\<rparr>"

section \<open>A library instance for plain ASCII names\<close>

text \<open>
  On a name of ASCII bytes with no backslash, \<open>dns.Fqdn\<close> appends a dot unless the name
  ends with one, and \<open>strings.ToLower\<close> maps the letters \<open>A\<close> to \<open>Z\<close> to \<open>a\<close> to \<open>z\<close>. On a
  dotted-decimal IPv4 address \<open>net.ParseIP\<close> returns the sixteen-byte form of the
  address. \<open>asciiLib\<close> computes these; it is the library on the names and addresses of
  the examples below.
\<close>

definition asciiFqdn :: "string \<Rightarrow> string" where
  "asciiFqdn s = (if s \<noteq> [] \<and> last s = CHR ''.'' then s else s @ ''.'')"

definition asciiLowerChar :: "char \<Rightarrow> char" where
  "asciiLowerChar c =
     (if 65 \<le> (of_char c :: nat) \<and> (of_char c :: nat) \<le> 90
      then char_of ((of_char c :: nat) + 32) else c)"

definition asciiToLower :: "string \<Rightarrow> string" where
  "asciiToLower s = map asciiLowerChar s"

fun splitOn :: "char \<Rightarrow> string \<Rightarrow> string list" where
  "splitOn c [] = [[]]"
| "splitOn c (x # xs) =
     (case splitOn c xs of
        [] \<Rightarrow> [[x]]
      | p # ps \<Rightarrow> if x = c then [] # p # ps else (x # p) # ps)"

definition isOctet :: "string \<Rightarrow> bool" where
  "isOctet p =
     (p \<noteq> [] \<and> length p \<le> 3 \<and> list_all isDigit p \<and> decimal p \<le> 255 \<and>
      (length p = 1 \<or> hd p \<noteq> CHR ''0''))"

definition parseIPv4 :: "string \<Rightarrow> IP option" where
  "parseIPv4 s =
     (let parts = splitOn (CHR ''.'') s
      in if length parts = 4 \<and> list_all isOctet parts
         then Some (replicate 10 0 @ [255, 255] @ map (\<lambda>p. word_of_int (decimal p)) parts)
         else None)"

definition asciiLib :: lib where
  "asciiLib = \<lparr>Fqdn = asciiFqdn, ToLower = asciiToLower, ParseIP = parseIPv4\<rparr>"

section \<open>Example servers and queries\<close>

text \<open>A server with the given zone store and \<open>Authoritative\<close> switch.\<close>

definition mkServer :: "(string \<rightharpoonup> Zone) \<Rightarrow> bool \<Rightarrow> Server" where
  "mkServer zones auth = \<lparr>r = \<lparr>Zones = zones\<rparr>, Authoritative = auth\<rparr>"

text \<open>\<open>msg.SetQuestion(name, qtype)\<close> on a new message: one question of class INET.\<close>

definition mkQuery :: "string \<Rightarrow> uint16 \<Rightarrow> Msg" where
  "mkQuery name t = newMsg\<lparr>Question := [\<lparr>Q_Name = name, Qtype = t, Qclass = ClassINET\<rparr>]\<rparr>"

text \<open>
  The store of \<open>TestServer_FollowCNAMEs\<close> and of the spec's end-to-end scenario:
  \<open>foo.io.\<close> is an alias of \<open>bar.io.\<close>, which is an alias of \<open>example.org.\<close>, which holds
  a TXT record.
\<close>

definition chainZones :: "string \<rightharpoonup> Zone" where
  "chainZones =
     [''foo.io.'' \<mapsto> zeroZone\<lparr>CNAME := ''bar.io.''\<rparr>,
      ''bar.io.'' \<mapsto> zeroZone\<lparr>CNAME := ''example.org.''\<rparr>,
      ''example.org.'' \<mapsto> zeroZone\<lparr>TXT := [''hello'']\<rparr>]"

section \<open>Notions used in the statements\<close>

text \<open>Two successive calls of \<open>AppendRR\<close> with the same name and type: the server after both.\<close>

definition AppendRR2 :: "Server \<Rightarrow> string \<Rightarrow> uint16 \<Rightarrow> string \<Rightarrow> string \<Rightarrow> Server" where
  "AppendRR2 s name t d1 d2 = fst (AppendRR (fst (AppendRR s name t d1)) name t d2)"

text \<open>The number of space characters of a string.\<close>

definition spaces :: "string \<Rightarrow> nat" where
  "spaces d = length (filter (\<lambda>c. c = CHR '' '') d)"

text \<open>A store with one zone, which holds one A record.\<close>

definition oneA :: "string \<rightharpoonup> Zone" where
  "oneA = [''foo.io.'' \<mapsto> zeroZone\<lparr>A := [''192.168.2.19'']\<rparr>]"

text \<open>
  The outcome is a written response with response code NXDOMAIN, the synthesized SOA
  record for \<open>n\<close> as its authority section and \<open>ans\<close> as its answer section.
\<close>

definition nxdomainWith :: "outcome \<Rightarrow> string \<Rightarrow> RR list \<Rightarrow> bool" where
  "nxdomainWith oc n ans =
     (case oc of
        Wrote out \<Rightarrow> Rcode out = RcodeNameError \<and> Ns out = [mkSOA n] \<and> Answer out = ans
      | Panic _ \<Rightarrow> False)"

text \<open>No zone of the store has \<open>Err\<close> set.\<close>

definition noErrors :: "(string \<rightharpoonup> Zone) \<Rightarrow> bool" where
  "noErrors zones = (\<forall>n. case zones n of None \<Rightarrow> True | Some z \<Rightarrow> Err z = None)"


text \<open>A store with one zone that has \<open>Err\<close> set and a CNAME.\<close>

definition errZones :: "string \<rightharpoonup> Zone" where
  "errZones = [''www.example.org.'' \<mapsto>
     zeroZone\<lparr>Err := Some (OtherError ''boom''), CNAME := ''foo.bar.com.''\<rparr>]"

text \<open>The store of \<open>TestResolver_LookupIP\<close>.\<close>

definition ipZones :: "string \<rightharpoonup> Zone" where
  "ipZones =
     [''example.com.'' \<mapsto>
        zeroZone\<lparr>A := [''192.168.0.1'', ''10.0.0.1''], AAAA := [''2001:db8::1'', ''2001:db8::2'']\<rparr>,
      ''example.org.'' \<mapsto> zeroZone\<lparr>MX := [\<lparr>MX_Host = ''example.com.'', MX_Pref = 10\<rparr>]\<rparr>]"

text \<open>A store with one zone that has \<open>Err\<close> set and an A record.\<close>

definition errA :: "string \<rightharpoonup> Zone" where
  "errA = [''example.org.'' \<mapsto>
     zeroZone\<lparr>Err := Some (OtherError ''boom''), A := [''1.2.3.4'']\<rparr>]"

text \<open>
  The outcome is a written response with response code \<open>rcode\<close> and \<open>ans\<close> as its
  answer section.
\<close>

definition respondsWith :: "outcome \<Rightarrow> int \<Rightarrow> RR list \<Rightarrow> bool" where
  "respondsWith oc rcode ans =
     (case oc of Wrote out \<Rightarrow> Rcode out = rcode \<and> Answer out = ans | Panic _ \<Rightarrow> False)"

text \<open>
  A store seeded with a zone that holds one A record and with a zone without records
  (as \<open>example.net.\<close> in \<open>TestResolver_LookupHost\<close>).
\<close>

definition emptySeed :: "string \<rightharpoonup> Zone" where
  "emptySeed = [''foo.io.'' \<mapsto> zeroZone\<lparr>A := [''192.168.2.19'']\<rparr>, ''bar.io.'' \<mapsto> zeroZone]"

text \<open>
  The server after \<open>AppendRR("Foo.io", TypeCNAME, "b.io.")\<close> and
  \<open>AppendRR("foo.io", TypeCNAME, "b.io.")\<close> on an empty store.
\<close>

definition twoCases :: Server where
  "twoCases =
     fst (AppendRR (fst (AppendRR (mkServer Map.empty False) ''Foo.io'' TypeCNAME ''b.io.''))
       ''foo.io'' TypeCNAME ''b.io.'')"

section \<open>Properties\<close>

lemmas rrtype_defs = TypeA_def TypeNS_def TypeCNAME_def TypeSOA_def TypePTR_def TypeMX_def
  TypeTXT_def TypeAAAA_def TypeSRV_def

lemmas rcode_defs = RcodeSuccess_def RcodeServerFailure_def RcodeNameError_def
  RcodeNotImplemented_def RcodeRefused_def

lemma asciiLib_simps [simp]:
  "Fqdn asciiLib = asciiFqdn" "ToLower asciiLib = asciiToLower" "ParseIP asciiLib = parseIPv4"
  by (simp_all add: asciiLib_def)

lemma norm_foo_io: "asciiToLower (asciiFqdn ''foo.io'') = ''foo.io.''"
  by (simp add: asciiToLower_def asciiFqdn_def asciiLowerChar_def)

subsection \<open>C10: an empty question section\<close>

text \<open>
  C10. \<open>ServeDNS\<close> reads \<open>m.Question[0]\<close> right after the opcode check. For every
  message with the standard query opcode and an empty question section, and for every
  server, the call panics with an index-out-of-range failure; no response is written.
\<close>

theorem ServeDNS_empty_question_panics:
  "Opcode m = OpcodeQuery \<Longrightarrow> Question m = [] \<Longrightarrow>
   ServeDNS l rm s m = Panic ''index out of range [0] with length 0''"
  by (simp add: ServeDNS_def)

theorem ServeDNS_empty_question_panics_witness:
  "Opcode newMsg = OpcodeQuery \<and> Question newMsg = [] \<and>
   ServeDNS asciiLib (engineMethods asciiLib 8) (mkServer Map.empty False) newMsg =
     Panic ''index out of range [0] with length 0''"
  using ServeDNS_empty_question_panics
    [of newMsg asciiLib "engineMethods asciiLib 8" "mkServer Map.empty False"]
  by (simp add: newMsg_def OpcodeQuery_def)

subsection \<open>C1: a CNAME query is answered from the zone of the queried name\<close>




subsection \<open>Facts about the store operations and the parsers\<close>

lemma Zones_setZone: "Zones (r (setZone s n z)) k = (if k = n then Some z else Zones (r s) k)"
  by (simp add: setZone_def)

lemma Zones_deleteZone: "Zones (r (deleteZone s n)) k = (if k = n then None else Zones (r s) k)"
  by (simp add: deleteZone_def)

lemma getZone_setZone: "getZone (setZone s n z) k = (if k = n then z else getZone s k)"
  by (simp add: getZone_def setZone_def)

lemma AppendRR_A: "AppendRR s name TypeA d =
    (setZone s (dotted name) ((getZone s (dotted name))\<lparr>A := A (getZone s (dotted name)) @ [d]\<rparr>), None)"
  by (simp add: AppendRR_def Let_def)

lemma AppendRR_AAAA: "AppendRR s name TypeAAAA d =
    (setZone s (dotted name) ((getZone s (dotted name))\<lparr>AAAA := AAAA (getZone s (dotted name)) @ [d]\<rparr>), None)"
  by (simp add: AppendRR_def Let_def rrtype_defs)

lemma AppendRR_TXT: "AppendRR s name TypeTXT d =
    (setZone s (dotted name) ((getZone s (dotted name))\<lparr>TXT := TXT (getZone s (dotted name)) @ [d]\<rparr>), None)"
  by (simp add: AppendRR_def Let_def rrtype_defs)

lemma AppendRR_PTR: "AppendRR s name TypePTR d =
    (setZone s (dotted name) ((getZone s (dotted name))\<lparr>PTR := PTR (getZone s (dotted name)) @ [d]\<rparr>), None)"
  by (simp add: AppendRR_def Let_def rrtype_defs)

lemma AppendRR_CNAME: "AppendRR s name TypeCNAME d =
    (setZone s (dotted name) ((getZone s (dotted name))\<lparr>CNAME := d\<rparr>), None)"
  by (simp add: AppendRR_def Let_def rrtype_defs)

lemma AppendRR_NS: "AppendRR s name TypeNS d =
    (setZone s (dotted name) ((getZone s (dotted name))\<lparr>NS := NS (getZone s (dotted name)) @ [\<lparr>NS_Host = d\<rparr>]\<rparr>), None)"
  by (simp add: AppendRR_def Let_def rrtype_defs)

lemma AppendRR_MX: "AppendRR s name TypeMX d =
    (case parseMX d of Inl e \<Rightarrow> (s, Some e)
     | Inr mx \<Rightarrow> (setZone s (dotted name) ((getZone s (dotted name))\<lparr>MX := MX (getZone s (dotted name)) @ [mx]\<rparr>), None))"
  by (simp add: AppendRR_def Let_def rrtype_defs)

lemma AppendRR_SRV: "AppendRR s name TypeSRV d =
    (case parseSRV d of Inl e \<Rightarrow> (s, Some e)
     | Inr v \<Rightarrow> (setZone s (dotted name) ((getZone s (dotted name))\<lparr>SRV := SRV (getZone s (dotted name)) @ [v]\<rparr>), None))"
  by (simp add: AppendRR_def Let_def rrtype_defs)

lemma not_suffix_foo: "dotted ''foo.io'' = ''foo.io.''"
  by (simp add: dotted_def HasSuffixDot_def)



lemma dropWhile_nospace:
  "CHR '' '' \<notin> set p \<Longrightarrow> dropWhile (\<lambda>c. c \<noteq> CHR '' '') (p @ CHR '' '' # h) = CHR '' '' # h"
  by (induction p) auto

lemma takeWhile_nospace:
  "CHR '' '' \<notin> set p \<Longrightarrow> takeWhile (\<lambda>c. c \<noteq> CHR '' '') (p @ CHR '' '' # h) = p"
  by (induction p) auto

lemma dropWhile_nospace_all:
  "CHR '' '' \<notin> set d \<Longrightarrow> dropWhile (\<lambda>c. c \<noteq> CHR '' '') d = []"
  by (induction d) auto

lemma SplitN_one: "SplitN s (Suc 0) = [s]"
  by simp

lemma SplitN_step:
  "CHR '' '' \<notin> set p \<Longrightarrow> SplitN (p @ CHR '' '' # h) (Suc (Suc n)) = p # SplitN h (Suc n)"
  by (simp add: dropWhile_nospace takeWhile_nospace)

lemma SplitN_nospace:
  "CHR '' '' \<notin> set d \<Longrightarrow> SplitN d (Suc (Suc n)) = [d]"
  by (simp add: dropWhile_nospace_all)

lemma SplitN_2_space: "CHR '' '' \<notin> set p \<Longrightarrow> SplitN (p @ CHR '' '' # h) 2 = [p, h]"
  by (simp add: numeral_2_eq_2 SplitN_step del: SplitN.simps(3))

lemma SplitN_2_nospace: "CHR '' '' \<notin> set d \<Longrightarrow> SplitN d 2 = [d]"
  by (simp add: numeral_2_eq_2 SplitN_nospace del: SplitN.simps)

lemma SplitN_4_space:
  assumes "CHR '' '' \<notin> set p1" "CHR '' '' \<notin> set p2" "CHR '' '' \<notin> set p3"
  shows "SplitN (p1 @ CHR '' '' # p2 @ CHR '' '' # p3 @ CHR '' '' # t) 4 = [p1, p2, p3, t]"
proof -
  have "(4::nat) = Suc (Suc (Suc (Suc 0)))" by simp
  then show ?thesis
    unfolding \<open>(4::nat) = Suc (Suc (Suc (Suc 0)))\<close> using assms
    by (simp add: SplitN_step del: SplitN.simps(3))
qed

lemma length_SplitN: "length (SplitN d n) \<le> n"
  by (induction d n rule: SplitN.induct) (auto split: list.split)

lemma uint_to_uint16: "uint (to_uint16 n) = n mod 65536"
  by (simp add: to_uint16_def uint_word_of_int)

lemma parseMX_ok:
  "CHR '' '' \<notin> set p \<Longrightarrow> Atoi p = Some n \<Longrightarrow>
   parseMX (p @ CHR '' '' # h) = Inr \<lparr>MX_Host = h, MX_Pref = to_uint16 n\<rparr>"
  by (simp add: parseMX_def SplitN_2_space)

lemma parseMX_bad_number:
  "CHR '' '' \<notin> set p \<Longrightarrow> Atoi p = None \<Longrightarrow>
   parseMX (p @ CHR '' '' # h) = Inl (OtherError ''invalid MX priority'')"
  by (simp add: parseMX_def SplitN_2_space)

lemma parseMX_no_space:
  "CHR '' '' \<notin> set d \<Longrightarrow> parseMX d = Inl (OtherError ''invalid MX rrData format'')"
  by (simp add: parseMX_def SplitN_2_nospace)

lemma parseSRV_ok:
  "CHR '' '' \<notin> set p1 \<Longrightarrow> CHR '' '' \<notin> set p2 \<Longrightarrow> CHR '' '' \<notin> set p3 \<Longrightarrow>
   Atoi p1 = Some n1 \<Longrightarrow> Atoi p2 = Some n2 \<Longrightarrow> Atoi p3 = Some n3 \<Longrightarrow>
   parseSRV (p1 @ CHR '' '' # p2 @ CHR '' '' # p3 @ CHR '' '' # t) =
     Inr \<lparr>SRV_Target = t, SRV_Port = to_uint16 n3, SRV_Priority = to_uint16 n1,
          SRV_Weight = to_uint16 n2\<rparr>"
  by (simp add: parseSRV_def SplitN_4_space)

lemma parseSRV_bad_number:
  "CHR '' '' \<notin> set p1 \<Longrightarrow> CHR '' '' \<notin> set p2 \<Longrightarrow> CHR '' '' \<notin> set p3 \<Longrightarrow>
   Atoi p1 = None \<or> Atoi p2 = None \<or> Atoi p3 = None \<Longrightarrow>
   \<exists>e. parseSRV (p1 @ CHR '' '' # p2 @ CHR '' '' # p3 @ CHR '' '' # t) = Inl e"
  by (auto simp add: parseSRV_def SplitN_4_space Let_def split: option.split)

lemma parseSRV_short:
  "length (SplitN d 4) \<noteq> 4 \<Longrightarrow> parseSRV d = Inl (OtherError ''invalid SRV rrData format'')"
  by (simp add: parseSRV_def)


lemma Atoi_65536: "Atoi ''65536'' = Some 65536"
  by code_simp

lemma Atoi_neg1: "Atoi ''-1'' = Some (- 1)"
  by code_simp

lemma getZone_empty: "getZone (mkServer Map.empty auth) k = zeroZone"
  by (simp add: getZone_def mkServer_def)

lemma spaces_dropWhile:
  "dropWhile (\<lambda>c. c \<noteq> CHR '' '') d = x # rest \<Longrightarrow> spaces d = Suc (spaces rest)"
  by (induction d) (auto simp add: spaces_def split: if_splits)

lemma spaces_dropWhile_Nil:
  "dropWhile (\<lambda>c. c \<noteq> CHR '' '') d = [] \<Longrightarrow> spaces d = 0"
  by (induction d) (auto simp add: spaces_def split: if_splits)

lemma length_SplitN_spaces: "length (SplitN d n) = min n (Suc (spaces d))"
  by (induction d n rule: SplitN.induct)
     (auto simp add: spaces_dropWhile spaces_dropWhile_Nil split: list.split)

lemma parseSRV_few_spaces:
  "spaces d < 3 \<Longrightarrow> parseSRV d = Inl (OtherError ''invalid SRV rrData format'')"
  by (simp add: parseSRV_def length_SplitN_spaces)

lemma parseMX_few_spaces:
  "spaces d = 0 \<Longrightarrow> parseMX d = Inl (OtherError ''invalid MX rrData format'')"
  by (simp add: parseMX_def length_SplitN_spaces)

lemma Atoi_10: "Atoi ''10'' = Some 10" by code_simp
lemma Atoi_23: "Atoi ''23'' = Some 23" by code_simp
lemma Atoi_8080: "Atoi ''8080'' = Some 8080" by code_simp
lemma Atoi_x: "Atoi ''ten'' = None" by code_simp

lemma lookupChain_absent:
  "zones key = None \<Longrightarrow> lookupChain n zones fld chain key = (chain, key, Inl (notFound key))"
  by (cases n) simp_all

lemma CNAME_query_absent:
  assumes "Opcode m = OpcodeQuery" and "Question m = q # qs"
    and "Qclass q = ClassINET" and "Qtype q = TypeCNAME"
    and "Zones (r s) (ToLower l (Fqdn l (Q_Name q))) = None"
  shows "\<exists>rep. ServeDNS l rm s m = Wrote rep \<and> Rcode rep = RcodeNameError"
  using assms
  by (simp add: ServeDNS_def initReply_def answerQuestion_def writeErr_def notFound_def
      rrtype_defs rcode_defs Let_def)

lemma RemoveRR_at_key:
  "Zones (r (RemoveRR s name t)) (dotted name) =
     (if isZoneEmpty (clearRR (getZone s (dotted name)) t) then None
      else Some (clearRR (getZone s (dotted name)) t))"
  by (simp add: RemoveRR_def Let_def Zones_setZone Zones_deleteZone)

lemma RemoveRR_other_keys:
  "k \<noteq> dotted name \<Longrightarrow> Zones (r (RemoveRR s name t)) k = Zones (r s) k"
  by (simp add: RemoveRR_def Let_def Zones_setZone Zones_deleteZone)

lemma getZone_mkServer: "getZone (mkServer zs auth) k = (case zs k of None \<Rightarrow> zeroZone | Some z \<Rightarrow> z)"
  by (simp add: getZone_def mkServer_def)

subsection \<open>C7: what \<open>AppendRR\<close> rejects\<close>

text \<open>
  C7, as amended. \<open>AppendRR\<close> returns a format error and leaves the store unchanged when
  an MX value has no space, when an SRV value has fewer than three spaces, and when a
  numeric field (the text before the first space of an MX value, the first three fields
  of an SRV value) is not what \<open>strconv.Atoi\<close> accepts. When the numeric fields parse,
  the record is appended with each number converted by \<open>uint16(n)\<close>, whose value is
  \<open>n mod 65536\<close>: a number from 0 to 65535 is stored as written, and a number outside
  that range is not rejected.
\<close>

theorem AppendRR_format_errors:
  assumes "key = dotted name" and "z = getZone s key"
    and "spaces p = 0" and "spaces pa = 0" and "spaces pb = 0" and "spaces pc = 0"
  shows "(spaces d = 0 \<longrightarrow>
            AppendRR s name TypeMX d = (s, Some (OtherError ''invalid MX rrData format''))) \<and>
         (spaces d < 3 \<longrightarrow>
            AppendRR s name TypeSRV d = (s, Some (OtherError ''invalid SRV rrData format''))) \<and>
         (Atoi p = None \<longrightarrow>
            AppendRR s name TypeMX (p @ '' '' @ h) = (s, Some (OtherError ''invalid MX priority''))) \<and>
         (Atoi pa = None \<or> Atoi pb = None \<or> Atoi pc = None \<longrightarrow>
            (\<exists>e. AppendRR s name TypeSRV (pa @ '' '' @ pb @ '' '' @ pc @ '' '' @ t) = (s, Some e))) \<and>
         (\<forall>n. Atoi p = Some n \<longrightarrow>
            AppendRR s name TypeMX (p @ '' '' @ h) =
              (setZone s key (z\<lparr>MX := MX z @ [\<lparr>MX_Host = h, MX_Pref = to_uint16 n\<rparr>]\<rparr>), None)) \<and>
         (\<forall>na nb nc. Atoi pa = Some na \<and> Atoi pb = Some nb \<and> Atoi pc = Some nc \<longrightarrow>
            AppendRR s name TypeSRV (pa @ '' '' @ pb @ '' '' @ pc @ '' '' @ t) =
              (setZone s key (z\<lparr>SRV := SRV z @
                 [\<lparr>SRV_Target = t, SRV_Port = to_uint16 nc, SRV_Priority = to_uint16 na,
                   SRV_Weight = to_uint16 nb\<rparr>]\<rparr>), None)) \<and>
         (\<forall>n. uint (to_uint16 n) = n mod 65536)"
proof -
  have sp: "CHR '' '' \<notin> set p" "CHR '' '' \<notin> set pa" "CHR '' '' \<notin> set pb" "CHR '' '' \<notin> set pc"
    using assms(3-6) by (auto simp add: spaces_def filter_empty_conv)
  have c1: "spaces d = 0 \<longrightarrow>
            AppendRR s name TypeMX d = (s, Some (OtherError ''invalid MX rrData format''))"
    by (simp add: AppendRR_MX parseMX_few_spaces)
  have c2: "spaces d < 3 \<longrightarrow>
            AppendRR s name TypeSRV d = (s, Some (OtherError ''invalid SRV rrData format''))"
    by (simp add: AppendRR_SRV parseSRV_few_spaces)
  have c3: "Atoi p = None \<longrightarrow>
            AppendRR s name TypeMX (p @ '' '' @ h) = (s, Some (OtherError ''invalid MX priority''))"
    using sp by (simp add: AppendRR_MX parseMX_bad_number)
  have c4: "Atoi pa = None \<or> Atoi pb = None \<or> Atoi pc = None \<longrightarrow>
            (\<exists>e. AppendRR s name TypeSRV (pa @ '' '' @ pb @ '' '' @ pc @ '' '' @ t) = (s, Some e))"
  proof
    assume "Atoi pa = None \<or> Atoi pb = None \<or> Atoi pc = None"
    with sp obtain e where
      "parseSRV (pa @ CHR '' '' # pb @ CHR '' '' # pc @ CHR '' '' # t) = Inl e"
      using parseSRV_bad_number by blast
    then show "\<exists>e. AppendRR s name TypeSRV (pa @ '' '' @ pb @ '' '' @ pc @ '' '' @ t) = (s, Some e)"
      by (simp add: AppendRR_SRV)
  qed
  have c5: "\<forall>n. Atoi p = Some n \<longrightarrow>
            AppendRR s name TypeMX (p @ '' '' @ h) =
              (setZone s key (z\<lparr>MX := MX z @ [\<lparr>MX_Host = h, MX_Pref = to_uint16 n\<rparr>]\<rparr>), None)"
    using sp assms(1,2) by (simp add: AppendRR_MX parseMX_ok)
  have c6: "\<forall>na nb nc. Atoi pa = Some na \<and> Atoi pb = Some nb \<and> Atoi pc = Some nc \<longrightarrow>
            AppendRR s name TypeSRV (pa @ '' '' @ pb @ '' '' @ pc @ '' '' @ t) =
              (setZone s key (z\<lparr>SRV := SRV z @
                 [\<lparr>SRV_Target = t, SRV_Port = to_uint16 nc, SRV_Priority = to_uint16 na,
                   SRV_Weight = to_uint16 nb\<rparr>]\<rparr>), None)"
    using sp assms(1,2) by (simp add: AppendRR_SRV parseSRV_ok)
  have c7: "\<forall>n. uint (to_uint16 n) = n mod 65536"
    by (simp add: uint_to_uint16)
  show ?thesis using c1 c2 c3 c4 c5 c6 c7 by blast
qed

theorem AppendRR_format_errors_witness:
  "spaces ''mail.example.org.'' = 0 \<and> spaces ''10'' = 0 \<and> spaces ''23'' = 0 \<and>
   spaces ''8080'' = 0 \<and> spaces ''ten'' = 0 \<and> Atoi ''ten'' = None \<and>
   Atoi ''10'' = Some 10 \<and> Atoi ''23'' = Some 23 \<and> Atoi ''8080'' = Some 8080 \<and>
   snd (AppendRR (mkServer Map.empty False) ''foo.io'' TypeMX ''mail.example.org.'') =
     Some (OtherError ''invalid MX rrData format'') \<and>
   snd (AppendRR (mkServer Map.empty False) ''foo.io'' TypeSRV ''mail.example.org.'') =
     Some (OtherError ''invalid SRV rrData format'') \<and>
   MX (getZone (fst (AppendRR (mkServer Map.empty False) ''foo.io'' TypeMX ''10 mail.example.org.''))
       ''foo.io.'') = [\<lparr>MX_Host = ''mail.example.org.'', MX_Pref = 10\<rparr>] \<and>
   SRV (getZone (fst (AppendRR (mkServer Map.empty False) ''foo.io'' TypeSRV ''23 10 8080 bar.io.''))
       ''foo.io.'') =
     [\<lparr>SRV_Target = ''bar.io.'', SRV_Port = 8080, SRV_Priority = 23, SRV_Weight = 10\<rparr>]"
  using AppendRR_format_errors [where key = "''foo.io.''" and name = "''foo.io''" and s = "mkServer Map.empty False"
      and z = zeroZone and p = "''10''" and pa = "''23''" and pb = "''10''" and pc = "''8080''"
      and d = "''mail.example.org.''" and h = "''mail.example.org.''" and t = "''bar.io.''"]
  by (simp add: spaces_def not_suffix_foo getZone_empty Atoi_10 Atoi_23 Atoi_8080 Atoi_x
      getZone_setZone to_uint16_def zeroZone_def)

text \<open>
  C7 as stated fails: an MX preference of 65536 is accepted and stored as 0, and a
  preference of -1 is accepted and stored as 65535.
\<close>

theorem AppendRR_uint16_overflow_counterexample:
  "snd (AppendRR (mkServer Map.empty False) ''example.org.'' TypeMX ''65536 mail.example.org.'') = None \<and>
   MX (getZone (fst (AppendRR (mkServer Map.empty False) ''example.org.'' TypeMX ''65536 mail.example.org.'')) ''example.org.'')
     = [\<lparr>MX_Host = ''mail.example.org.'', MX_Pref = 0\<rparr>] \<and>
   snd (AppendRR (mkServer Map.empty False) ''example.org.'' TypeMX ''-1 mail.example.org.'') = None \<and>
   MX (getZone (fst (AppendRR (mkServer Map.empty False) ''example.org.'' TypeMX ''-1 mail.example.org.'')) ''example.org.'')
     = [\<lparr>MX_Host = ''mail.example.org.'', MX_Pref = 65535\<rparr>]"
  using parseMX_ok [of "''65536''" 65536 "''mail.example.org.''"]
    parseMX_ok [of "''-1''" "- 1" "''mail.example.org.''"]
  by (simp add: Atoi_65536 Atoi_neg1 AppendRR_MX getZone_setZone to_uint16_def dotted_def
      HasSuffixDot_def getZone_empty zeroZone_def)

subsection \<open>C9: the store key of the mutating operations\<close>

text \<open>
  C9, as amended. \<open>AppendRR\<close> and \<open>RemoveRR\<close> use as store key the name with a dot
  appended unless it already ends with one; the letters of the name are kept as given.
  A successful \<open>AppendRR\<close> leaves a zone under that key, and neither operation changes
  the store under any other key.
\<close>

theorem mutation_key_is_dotted_name:
  "(snd (AppendRR s name t d) = None \<longrightarrow>
      Zones (r (fst (AppendRR s name t d))) (dotted name) \<noteq> None) \<and>
   (\<forall>k. k \<noteq> dotted name \<longrightarrow> Zones (r (fst (AppendRR s name t d))) k = Zones (r s) k) \<and>
   (\<forall>k. k \<noteq> dotted name \<longrightarrow> Zones (r (RemoveRR s name t)) k = Zones (r s) k) \<and>
   dotted name = (if name \<noteq> [] \<and> last name = CHR ''.'' then name else name @ ''.'')"
proof -
  have a: "snd (AppendRR s name t d) = None \<longrightarrow>
      Zones (r (fst (AppendRR s name t d))) (dotted name) \<noteq> None"
    by (auto simp add: AppendRR_def Let_def Zones_setZone split: sum.splits)
  have b: "\<forall>k. k \<noteq> dotted name \<longrightarrow> Zones (r (fst (AppendRR s name t d))) k = Zones (r s) k"
    by (auto simp add: AppendRR_def Let_def Zones_setZone split: sum.splits)
  have c: "\<forall>k. k \<noteq> dotted name \<longrightarrow> Zones (r (RemoveRR s name t)) k = Zones (r s) k"
    by (simp add: RemoveRR_other_keys)
  have d: "dotted name = (if name \<noteq> [] \<and> last name = CHR ''.'' then name else name @ ''.'')"
    by (cases name rule: rev_cases) (simp_all add: dotted_def HasSuffixDot_def)
  show ?thesis using a b c d by blast
qed

theorem mutation_key_is_dotted_name_witness:
  "snd (AppendRR (mkServer Map.empty False) ''Foo.io'' TypeCNAME ''bar.io.'') = None \<and>
   dotted ''Foo.io'' = ''Foo.io.'' \<and>
   Zones (r (fst (AppendRR (mkServer Map.empty False) ''Foo.io'' TypeCNAME ''bar.io.''))) ''Foo.io.''
     \<noteq> None"
  using mutation_key_is_dotted_name [of "mkServer Map.empty False" "''Foo.io''" TypeCNAME "''bar.io.''"]
  by (simp add: AppendRR_CNAME dotted_def HasSuffixDot_def)

text \<open>
  C9 as stated fails: a record added under \<open>Foo.io\<close> is stored under \<open>Foo.io.\<close>, the
  store has nothing under the lowercase name \<open>foo.io.\<close>, and a CNAME query for \<open>foo.io\<close>
  is answered NXDOMAIN.
\<close>

theorem mutation_key_case_counterexample:
  "asciiToLower (asciiFqdn ''Foo.io'') = ''foo.io.'' \<and>
   snd (AppendRR (mkServer Map.empty False) ''Foo.io'' TypeCNAME ''bar.io.'') = None \<and>
   Zones (r (fst (AppendRR (mkServer Map.empty False) ''Foo.io'' TypeCNAME ''bar.io.'')))
     ''foo.io.'' = None \<and>
   CNAME (getZone (fst (AppendRR (mkServer Map.empty False) ''Foo.io'' TypeCNAME ''bar.io.''))
     ''Foo.io.'') = ''bar.io.'' \<and>
   (\<exists>rep. ServeDNS asciiLib (engineMethods asciiLib 8)
            (fst (AppendRR (mkServer Map.empty False) ''Foo.io'' TypeCNAME ''bar.io.''))
            (mkQuery ''foo.io'' TypeCNAME) = Wrote rep \<and> Rcode rep = RcodeNameError)"
proof -
  have n: "asciiToLower (asciiFqdn ''Foo.io'') = ''foo.io.''"
    by code_simp
  have k: "dotted ''Foo.io'' = ''Foo.io.''"
    by (simp add: dotted_def HasSuffixDot_def)
  have a: "AppendRR (mkServer Map.empty False) ''Foo.io'' TypeCNAME ''bar.io.'' =
      (setZone (mkServer Map.empty False) ''Foo.io.'' (zeroZone\<lparr>CNAME := ''bar.io.''\<rparr>), None)"
    by (simp add: AppendRR_CNAME k getZone_empty)
  have z: "Zones (r (fst (AppendRR (mkServer Map.empty False) ''Foo.io'' TypeCNAME ''bar.io.'')))
     ''foo.io.'' = None"
    unfolding a by (simp add: Zones_setZone mkServer_def)
  have q: "\<exists>rep. ServeDNS asciiLib (engineMethods asciiLib 8)
            (fst (AppendRR (mkServer Map.empty False) ''Foo.io'' TypeCNAME ''bar.io.''))
            (mkQuery ''foo.io'' TypeCNAME) = Wrote rep \<and> Rcode rep = RcodeNameError"
    by (rule CNAME_query_absent [where q = "\<lparr>Q_Name = ''foo.io'', Qtype = TypeCNAME, Qclass = ClassINET\<rparr>" and qs = "[]"])
       (simp_all add: mkQuery_def newMsg_def OpcodeQuery_def norm_foo_io z)
  show ?thesis using n z q by (simp add: a getZone_setZone)
qed

subsection \<open>Facts about the handler\<close>

lemma initReply_flags:
  "Msg_Authoritative (initReply s m) = Authoritative s"
  "RecursionAvailable (initReply s m) = (\<not> Authoritative s)"
  "Rcode (initReply s m) = RcodeSuccess"
  "Ns (initReply s m) = []"
  "Answer (initReply s m) = []"
  by (simp_all add: initReply_def SetReply_def newMsg_def Let_def split: list.split)

lemma writeErr_fields:
  "Msg_Authoritative (writeErr s rep e) = Msg_Authoritative rep"
  "Answer (writeErr s rep e) = Answer rep"
  "Rcode (writeErr s rep e) = (if isNotFound e then RcodeNameError else RcodeServerFailure)"
  "RecursionAvailable (writeErr s rep e) = isNotFound e"
  "Ns (writeErr s rep e) = (if isNotFound e then [mkSOA (err_Name e)] else Ns rep)"
  by (simp_all add: writeErr_def isNotFound_def Let_def split: error.split bool.split)

lemma resolved_failed:
  "resolved reply (ad, cnames, rname, vals, Some e) mk =
     Failed (reply\<lparr>AuthenticatedData := ad,
                   Answer := appendCNAMEs (Answer reply) cnames rname\<rparr>) e"
  by (simp add: resolved_def Let_def)

lemma resolved_Done_flags:
  "resolved reply res mk = Done rep \<Longrightarrow>
   Msg_Authoritative rep = Msg_Authoritative reply \<and>
   RecursionAvailable rep = RecursionAvailable reply \<and> Rcode rep = Rcode reply"
  by (cases res) (auto simp add: resolved_def Let_def split: option.splits)

lemma resolved_Failed_flags:
  "resolved reply res mk = Failed rep e \<Longrightarrow>
   Msg_Authoritative rep = Msg_Authoritative reply \<and>
   RecursionAvailable rep = RecursionAvailable reply \<and> Rcode rep = Rcode reply"
  by (cases res) (auto simp add: resolved_def Let_def split: option.splits)

lemma answerQuestion_Done_flags:
  "answerQuestion l rm s q qname reply = Done rep \<Longrightarrow>
   Msg_Authoritative rep = Msg_Authoritative reply \<and>
   RecursionAvailable rep = RecursionAvailable reply \<and> Rcode rep = Rcode reply"
  by (auto simp add: answerQuestion_def Let_def dest: resolved_Done_flags
      split: if_splits option.splits)

lemma answerQuestion_Failed_flags:
  "answerQuestion l rm s q qname reply = Failed rep e \<Longrightarrow>
   Msg_Authoritative rep = Msg_Authoritative reply \<and>
   RecursionAvailable rep = RecursionAvailable reply \<and> Rcode rep = Rcode reply"
  by (auto simp add: answerQuestion_def Let_def dest: resolved_Failed_flags
      split: if_splits option.splits)

lemma SetRcode_flags:
  "Msg_Authoritative (SetRcode d m c) = Msg_Authoritative d"
  "RecursionAvailable (SetRcode d m c) = RecursionAvailable d"
  "Rcode (SetRcode d m c) = c"
  by (simp_all add: SetRcode_def SetReply_def Let_def split: list.split)

lemma ServeDNS_std:
  assumes "Opcode m = OpcodeQuery" and "Question m = q # qs" and "Qclass q = ClassINET"
  shows "ServeDNS l rm s m =
     (case answerQuestion l rm s q (ToLower l (Fqdn l (Q_Name q))) (initReply s m) of
        Done rep \<Rightarrow> Wrote rep
      | Failed rep err \<Rightarrow> Wrote (writeErr s rep err)
      | Panicked msg \<Rightarrow> Panic msg)"
  using assms by (simp add: ServeDNS_def Let_def)

lemma norm_www: "asciiToLower (asciiFqdn ''www.example.org.'') = ''www.example.org.''"
  by (simp add: asciiToLower_def asciiFqdn_def asciiLowerChar_def)

lemma mkQuery_fields:
  "Opcode (mkQuery name t) = OpcodeQuery"
  "Question (mkQuery name t) = [\<lparr>Q_Name = name, Qtype = t, Qclass = ClassINET\<rparr>]"
  by (simp_all add: mkQuery_def newMsg_def OpcodeQuery_def)

lemma ServeDNS_mkQuery:
  "ServeDNS l rm s (mkQuery name t) =
     (case answerQuestion l rm s \<lparr>Q_Name = name, Qtype = t, Qclass = ClassINET\<rparr>
             (ToLower l (Fqdn l name)) (initReply s (mkQuery name t)) of
        Done rep \<Rightarrow> Wrote rep
      | Failed rep err \<Rightarrow> Wrote (writeErr s rep err)
      | Panicked msg \<Rightarrow> Panic msg)"
  using ServeDNS_std [of "mkQuery name t" "\<lparr>Q_Name = name, Qtype = t, Qclass = ClassINET\<rparr>" "[]" l rm s]
  by (simp add: mkQuery_fields)

lemma answer_CNAME_chain:
  "answerQuestion asciiLib rm (mkServer chainZones auth)
     \<lparr>Q_Name = ''foo.io'', Qtype = TypeCNAME, Qclass = ClassINET\<rparr> ''foo.io.'' reply =
   Done (reply\<lparr>Answer := Answer reply @ [mkCname ''foo.io.'' ''bar.io.'']\<rparr>)"
  by (simp add: answerQuestion_def rrtype_defs norm_foo_io mkServer_def chainZones_def
      zeroZone_def Let_def)

lemma answer_CNAME_empty:
  "answerQuestion asciiLib rm (mkServer Map.empty auth)
     \<lparr>Q_Name = ''foo.io'', Qtype = TypeCNAME, Qclass = ClassINET\<rparr> ''foo.io.'' reply =
   Failed reply (notFound ''foo.io.'')"
  by (simp add: answerQuestion_def rrtype_defs norm_foo_io mkServer_def Let_def)

lemma mkServer_fields:
  "Authoritative (mkServer zs auth) = auth" "Zones (r (mkServer zs auth)) = zs"
  by (simp_all add: mkServer_def)


subsection \<open>Facts about queries answered from the store\<close>

lemma Zones_AppendRR2_A:
  "Zones (r (AppendRR2 s name TypeA da db)) (dotted name) =
     Some ((getZone s (dotted name))\<lparr>A := A (getZone s (dotted name)) @ [da, db]\<rparr>)"
  by (simp add: AppendRR2_def AppendRR_A Zones_setZone getZone_setZone)

lemma Zones_AppendRR2_AAAA:
  "Zones (r (AppendRR2 s name TypeAAAA da db)) (dotted name) =
     Some ((getZone s (dotted name))\<lparr>AAAA := AAAA (getZone s (dotted name)) @ [da, db]\<rparr>)"
  by (simp add: AppendRR2_def AppendRR_AAAA Zones_setZone getZone_setZone)

lemma Zones_AppendRR2_TXT:
  "Zones (r (AppendRR2 s name TypeTXT da db)) (dotted name) =
     Some ((getZone s (dotted name))\<lparr>TXT := TXT (getZone s (dotted name)) @ [da, db]\<rparr>)"
  by (simp add: AppendRR2_def AppendRR_TXT Zones_setZone getZone_setZone)

lemma Zones_AppendRR2_PTR:
  "Zones (r (AppendRR2 s name TypePTR da db)) (dotted name) =
     Some ((getZone s (dotted name))\<lparr>PTR := PTR (getZone s (dotted name)) @ [da, db]\<rparr>)"
  by (simp add: AppendRR2_def AppendRR_PTR Zones_setZone getZone_setZone)

lemma Zones_AppendRR2_CNAME:
  "Zones (r (AppendRR2 s name TypeCNAME da db)) (dotted name) =
     Some ((getZone s (dotted name))\<lparr>CNAME := db\<rparr>)"
  by (simp add: AppendRR2_def AppendRR_CNAME Zones_setZone getZone_setZone)

lemma Zones_AppendRR2_NS:
  "Zones (r (AppendRR2 s name TypeNS da db)) (dotted name) =
     Some ((getZone s (dotted name))\<lparr>NS := NS (getZone s (dotted name)) @
        [\<lparr>NS_Host = da\<rparr>, \<lparr>NS_Host = db\<rparr>]\<rparr>)"
  by (simp add: AppendRR2_def AppendRR_NS Zones_setZone getZone_setZone)

lemma Zones_AppendRR2_MX:
  "parseMX da = Inr ma \<Longrightarrow> parseMX db = Inr mb \<Longrightarrow>
   Zones (r (AppendRR2 s name TypeMX da db)) (dotted name) =
     Some ((getZone s (dotted name))\<lparr>MX := MX (getZone s (dotted name)) @ [ma, mb]\<rparr>)"
  by (simp add: AppendRR2_def AppendRR_MX Zones_setZone getZone_setZone)

lemma Zones_AppendRR2_SRV:
  "parseSRV da = Inr va \<Longrightarrow> parseSRV db = Inr vb \<Longrightarrow>
   Zones (r (AppendRR2 s name TypeSRV da db)) (dotted name) =
     Some ((getZone s (dotted name))\<lparr>SRV := SRV (getZone s (dotted name)) @ [va, vb]\<rparr>)"
  by (simp add: AppendRR2_def AppendRR_SRV Zones_setZone getZone_setZone)

lemma PTR_query_present:
  assumes "Opcode m = OpcodeQuery" and "Question m = q # qs"
    and "Qclass q = ClassINET" and "Qtype q = TypePTR"
    and "Zones (r s) (Q_Name q) = Some z"
  shows "\<exists>rep. ServeDNS l rm s m = Wrote rep \<and> Rcode rep = RcodeSuccess \<and>
           Answer rep = map (mkPTR (Q_Name q)) (PTR z)"
  using assms
  by (simp add: ServeDNS_std answerQuestion_def rrtype_defs initReply_flags)

lemma PTR_query_absent:
  assumes "Opcode m = OpcodeQuery" and "Question m = q # qs"
    and "Qclass q = ClassINET" and "Qtype q = TypePTR"
    and "Zones (r s) (Q_Name q) = None"
  shows "\<exists>rep. ServeDNS l rm s m = Wrote rep \<and> Rcode rep = RcodeNameError \<and>
           Ns rep = [mkSOA (Q_Name q)] \<and> Answer rep = []"
  using assms
  by (simp add: ServeDNS_std answerQuestion_def rrtype_defs initReply_flags writeErr_fields
      notFound_def isNotFound_def)

lemma CNAME_query_present:
  assumes "Opcode m = OpcodeQuery" and "Question m = q # qs"
    and "Qclass q = ClassINET" and "Qtype q = TypeCNAME"
    and "Zones (r s) (ToLower l (Fqdn l (Q_Name q))) = Some z" and "CNAME z \<noteq> []"
  shows "\<exists>rep. ServeDNS l rm s m = Wrote rep \<and> Rcode rep = RcodeSuccess \<and>
           Answer rep = [mkCname (ToLower l (Fqdn l (Q_Name q))) (CNAME z)]"
  using assms
  by (simp add: ServeDNS_std answerQuestion_def rrtype_defs initReply_flags Let_def)

lemma norm_Foo_io: "asciiToLower (asciiFqdn ''Foo.io'') = ''foo.io.''"
  by code_simp

lemma dotted_Foo_io: "dotted ''Foo.io'' = ''Foo.io.''"
  by (simp add: dotted_def HasSuffixDot_def)

lemma norm_Mail_io: "asciiToLower (asciiFqdn ''Mail.io'') = ''mail.io.''"
  by code_simp

lemma dotted_Mail_io: "dotted ''Mail.io'' = ''Mail.io.''"
  by (simp add: dotted_def HasSuffixDot_def)

lemma norm_www_org: "asciiToLower (asciiFqdn ''www.example.org'') = ''www.example.org.''"
  by (simp add: asciiToLower_def asciiFqdn_def asciiLowerChar_def)

lemma dotted_www_org: "dotted ''www.example.org'' = ''www.example.org.''"
  by (simp add: dotted_def HasSuffixDot_def)

lemma Zones_twoCases:
  "Zones (r twoCases) k =
     (if k = ''foo.io.'' \<or> k = ''Foo.io.'' then Some (zeroZone\<lparr>CNAME := ''b.io.''\<rparr>) else None)"
  by (simp add: twoCases_def AppendRR_CNAME Zones_setZone getZone_setZone dotted_Foo_io
      not_suffix_foo getZone_empty mkServer_fields)

subsection \<open>C2: the authoritative and recursion-available flags\<close>

text \<open>
  C2, as amended. For every query with the standard opcode that \<open>ServeDNS\<close> answers,
  the authoritative flag of the response is the server's \<open>Authoritative\<close> setting; this
  holds for every such response, NXDOMAIN and SERVFAIL included. A response of an
  authoritative server has recursion-available cleared unless it is NXDOMAIN; a response
  of a non-authoritative server has recursion-available set unless it is SERVFAIL; a
  SERVFAIL response has recursion-available cleared in both modes. A query with another
  opcode is answered REFUSED before the flags are set: that response has neither flag.
\<close>

theorem ServeDNS_header_flags:
  "(Opcode m = OpcodeQuery \<and> ServeDNS l rm s m = Wrote out \<longrightarrow>
      Msg_Authoritative out = Authoritative s \<and>
      (Authoritative s \<and> Rcode out \<noteq> RcodeNameError \<longrightarrow> \<not> RecursionAvailable out) \<and>
      (\<not> Authoritative s \<and> Rcode out \<noteq> RcodeServerFailure \<longrightarrow> RecursionAvailable out) \<and>
      (Rcode out = RcodeServerFailure \<longrightarrow> \<not> RecursionAvailable out)) \<and>
   (Opcode m \<noteq> OpcodeQuery \<longrightarrow>
      (\<exists>rep. ServeDNS l rm s m = Wrote rep \<and> Rcode rep = RcodeRefused \<and>
         \<not> Msg_Authoritative rep \<and> \<not> RecursionAvailable rep))"
proof (rule conjI)
  show "Opcode m \<noteq> OpcodeQuery \<longrightarrow>
      (\<exists>rep. ServeDNS l rm s m = Wrote rep \<and> Rcode rep = RcodeRefused \<and>
         \<not> Msg_Authoritative rep \<and> \<not> RecursionAvailable rep)"
    by (simp add: ServeDNS_def SetRcode_flags newMsg_def)
next
  show "Opcode m = OpcodeQuery \<and> ServeDNS l rm s m = Wrote out \<longrightarrow>
      Msg_Authoritative out = Authoritative s \<and>
      (Authoritative s \<and> Rcode out \<noteq> RcodeNameError \<longrightarrow> \<not> RecursionAvailable out) \<and>
      (\<not> Authoritative s \<and> Rcode out \<noteq> RcodeServerFailure \<longrightarrow> RecursionAvailable out) \<and>
      (Rcode out = RcodeServerFailure \<longrightarrow> \<not> RecursionAvailable out)"
  proof
    assume h0: "Opcode m = OpcodeQuery \<and> ServeDNS l rm s m = Wrote out"
    then have op: "Opcode m = OpcodeQuery" and w: "ServeDNS l rm s m = Wrote out"
      by simp_all
    note h = op w
    from h obtain q qs where qq: "Question m = q # qs"
      by (cases "Question m") (auto simp add: ServeDNS_def Let_def)
    show "Msg_Authoritative out = Authoritative s \<and>
      (Authoritative s \<and> Rcode out \<noteq> RcodeNameError \<longrightarrow> \<not> RecursionAvailable out) \<and>
      (\<not> Authoritative s \<and> Rcode out \<noteq> RcodeServerFailure \<longrightarrow> RecursionAvailable out) \<and>
      (Rcode out = RcodeServerFailure \<longrightarrow> \<not> RecursionAvailable out)"
    proof (cases "Qclass q = ClassINET")
      case False
      with h qq have "out = SetRcode (initReply s m) m RcodeNotImplemented"
        by (simp add: ServeDNS_def Let_def)
      then show ?thesis
        by (simp add: SetRcode_flags initReply_flags rcode_defs)
    next
      case True
      let ?st = "answerQuestion l rm s q (ToLower l (Fqdn l (Q_Name q))) (initReply s m)"
      from h qq True have sd: "(case ?st of Done rep \<Rightarrow> Wrote rep
          | Failed rep err \<Rightarrow> Wrote (writeErr s rep err) | Panicked msg \<Rightarrow> Panic msg) = Wrote out"
        using ServeDNS_std [of m q qs l rm s] by simp
      show ?thesis
      proof (cases ?st)
        case (Done rep)
        with sd have "out = rep" by simp
        with Done answerQuestion_Done_flags [of l rm s q _ "initReply s m" rep] show ?thesis
          by (simp add: initReply_flags rcode_defs)
      next
        case (Failed rep e)
        with sd have "out = writeErr s rep e" by simp
        with Failed answerQuestion_Failed_flags [of l rm s q _ "initReply s m" rep e] show ?thesis
          by (simp add: initReply_flags writeErr_fields rcode_defs)
      next
        case (Panicked p)
        with sd show ?thesis by simp
      qed
    qed
  qed
qed

theorem ServeDNS_header_flags_witness:
  "Opcode (mkQuery ''foo.io'' TypeCNAME) = OpcodeQuery \<and>
   (\<exists>out. ServeDNS asciiLib (engineMethods asciiLib 8) (mkServer chainZones True)
            (mkQuery ''foo.io'' TypeCNAME) = Wrote out \<and>
          Rcode out = RcodeSuccess \<and> Msg_Authoritative out \<and> \<not> RecursionAvailable out) \<and>
   (\<exists>out. ServeDNS asciiLib (engineMethods asciiLib 8) (mkServer chainZones False)
            (mkQuery ''foo.io'' TypeCNAME) = Wrote out \<and>
          Rcode out = RcodeSuccess \<and> \<not> Msg_Authoritative out \<and> RecursionAvailable out)"
proof -
  let ?rm = "engineMethods asciiLib 8"
  let ?m = "mkQuery ''foo.io'' TypeCNAME"
  have op: "Opcode ?m = OpcodeQuery" by (simp add: mkQuery_fields)
  obtain oa where a: "ServeDNS asciiLib ?rm (mkServer chainZones True) ?m = Wrote oa"
      and ra: "Rcode oa = RcodeSuccess"
    by (simp add: ServeDNS_mkQuery norm_foo_io answer_CNAME_chain initReply_flags)
  obtain ob where b: "ServeDNS asciiLib ?rm (mkServer chainZones False) ?m = Wrote ob"
      and rb: "Rcode ob = RcodeSuccess"
    by (simp add: ServeDNS_mkQuery norm_foo_io answer_CNAME_chain initReply_flags)
  have fa: "Msg_Authoritative oa \<and> \<not> RecursionAvailable oa"
    using ServeDNS_header_flags [of ?m asciiLib ?rm "mkServer chainZones True" oa] op a ra
    by (simp add: mkServer_def rcode_defs)
  have fb: "\<not> Msg_Authoritative ob \<and> RecursionAvailable ob"
    using ServeDNS_header_flags [of ?m asciiLib ?rm "mkServer chainZones False" ob] op b rb
    by (simp add: mkServer_def rcode_defs)
  show ?thesis using op a ra fa b rb fb by blast
qed

text \<open>
  C2 as stated fails in three places: an authoritative server answers a CNAME query for
  an unknown name with NXDOMAIN and recursion-available set; \<open>writeErr\<close> with an error
  that is not NotFound gives a non-authoritative server's reply the SERVFAIL code and
  clears recursion-available; and an authoritative server answers a query whose opcode is
  not the standard one with REFUSED and the authoritative flag cleared.
\<close>

theorem ServeDNS_header_flags_counterexample:
  "(\<exists>out. ServeDNS asciiLib (engineMethods asciiLib 8) (mkServer Map.empty True)
            (mkQuery ''foo.io'' TypeCNAME) = Wrote out \<and>
          Rcode out = RcodeNameError \<and> Msg_Authoritative out \<and> RecursionAvailable out) \<and>
   Rcode (writeErr (mkServer Map.empty False)
            (initReply (mkServer Map.empty False) (mkQuery ''foo.io'' TypeTXT))
            (OtherError ''boom'')) = RcodeServerFailure \<and>
   \<not> RecursionAvailable (writeErr (mkServer Map.empty False)
            (initReply (mkServer Map.empty False) (mkQuery ''foo.io'' TypeTXT))
            (OtherError ''boom'')) \<and>
   (\<exists>out. ServeDNS asciiLib (engineMethods asciiLib 8) (mkServer Map.empty True)
            (newMsg\<lparr>Opcode := 5\<rparr>) = Wrote out \<and>
          Rcode out = RcodeRefused \<and> \<not> Msg_Authoritative out)"
proof -
  have a: "\<exists>out. ServeDNS asciiLib (engineMethods asciiLib 8) (mkServer Map.empty True)
            (mkQuery ''foo.io'' TypeCNAME) = Wrote out \<and>
          Rcode out = RcodeNameError \<and> Msg_Authoritative out \<and> RecursionAvailable out"
    by (simp add: ServeDNS_mkQuery norm_foo_io answer_CNAME_empty initReply_flags
        writeErr_fields isNotFound_def notFound_def mkServer_fields)
  have b: "Rcode (writeErr (mkServer Map.empty False)
            (initReply (mkServer Map.empty False) (mkQuery ''foo.io'' TypeTXT))
            (OtherError ''boom'')) = RcodeServerFailure \<and>
      \<not> RecursionAvailable (writeErr (mkServer Map.empty False)
            (initReply (mkServer Map.empty False) (mkQuery ''foo.io'' TypeTXT))
            (OtherError ''boom''))"
    by (simp add: writeErr_fields isNotFound_def)
  have c: "\<exists>out. ServeDNS asciiLib (engineMethods asciiLib 8) (mkServer Map.empty True)
            (newMsg\<lparr>Opcode := 5\<rparr>) = Wrote out \<and>
          Rcode out = RcodeRefused \<and> \<not> Msg_Authoritative out"
    by (simp add: ServeDNS_def OpcodeQuery_def SetRcode_flags newMsg_def)
  show ?thesis using a b c by blast
qed

subsection \<open>C4: the response to a lookup that ends in NotFound\<close>



subsection \<open>C5: a zone with \<open>Err\<close> set\<close>

text \<open>
  C5 fails on the code for the query types that \<open>ServeDNS\<close> answers from the store
  without reading \<open>Err\<close>. The zone \<open>www.example.org.\<close> has \<open>Err\<close> set and a CNAME; the
  CNAME query for it is answered with response code success and the CNAME record in the
  answer section, not with SERVFAIL and an empty answer section.
\<close>

theorem CNAME_answer_from_zone_with_Err:
  "(\<exists>z. Zones (r (mkServer errZones False)) ''www.example.org.'' = Some z \<and>
        Err z = Some (OtherError ''boom'')) \<and>
   (\<exists>out. ServeDNS asciiLib (engineMethods asciiLib 8) (mkServer errZones False)
            (mkQuery ''www.example.org.'' TypeCNAME) = Wrote out \<and>
          Rcode out = RcodeSuccess \<and>
          Answer out = [mkCname ''www.example.org.'' ''foo.bar.com.''])"
proof -
  have a: "\<exists>z. Zones (r (mkServer errZones False)) ''www.example.org.'' = Some z \<and>
        Err z = Some (OtherError ''boom'')"
    by (simp add: mkServer_fields errZones_def)
  have q: "answerQuestion asciiLib (engineMethods asciiLib 8) (mkServer errZones False)
     \<lparr>Q_Name = ''www.example.org.'', Qtype = TypeCNAME, Qclass = ClassINET\<rparr>
     ''www.example.org.'' reply =
   Done (reply\<lparr>Answer := Answer reply @ [mkCname ''www.example.org.'' ''foo.bar.com.'']\<rparr>)"
    for reply
    by (simp add: answerQuestion_def rrtype_defs norm_www mkServer_fields errZones_def
        zeroZone_def Let_def)
  have b: "\<exists>out. ServeDNS asciiLib (engineMethods asciiLib 8) (mkServer errZones False)
            (mkQuery ''www.example.org.'' TypeCNAME) = Wrote out \<and>
          Rcode out = RcodeSuccess \<and>
          Answer out = [mkCname ''www.example.org.'' ''foo.bar.com.'']"
    by (simp add: ServeDNS_mkQuery norm_www q initReply_flags)
  show ?thesis using a b by blast
qed

subsection \<open>C3: the address lookup for both families\<close>

lemma lookupChain_noErrors:
  "noErrors zones \<Longrightarrow> lookupChain n zones fld chain cur = (c, k, Inl e) \<Longrightarrow> isNotFound e"
proof (induction n arbitrary: chain cur)
  case 0
  then show ?case by (auto simp add: notFound_def isNotFound_def split: error.splits)
next
  case (Suc n)
  show ?case
  proof (cases "zones cur")
    case None
    with Suc.prems show ?thesis
      by (auto simp add: notFound_def isNotFound_def split: error.splits)
  next
    case (Some z)
    with Suc.prems(1) have ez: "Err z = None"
      by (auto simp add: noErrors_def split: option.splits dest: spec [of _ cur])
    show ?thesis
    proof (cases "CNAME z \<noteq> [] \<and> fld z = []")
      case True
      with Some ez Suc.prems(2)
      have "lookupChain n zones fld (chain @ [CNAME z]) (CNAME z) = (c, k, Inl e)" by simp
      with Suc.IH Suc.prems(1) show ?thesis by blast
    next
      case False
      with Some ez Suc.prems(2) show ?thesis
        by (auto simp add: notFound_def isNotFound_def split: if_splits error.splits)
    qed
  qed
qed

lemma lookup_hit:
  "zones (ToLower l (Fqdn l host)) = Some z \<Longrightarrow> Err z = None \<Longrightarrow> fld z \<noteq> [] \<Longrightarrow>
   snd (snd (lookup l (Suc bound) zones fld host)) = Inr (fld z)"
  by (simp add: lookup_def)

lemma lookup_Err:
  "zones (ToLower l (Fqdn l host)) = Some z \<Longrightarrow> Err z = Some e \<Longrightarrow>
   snd (snd (lookup l (Suc bound) zones fld host)) = Inl e"
  by (simp add: lookup_def)

lemma mergeFamilies_same_error: "mergeFamilies (Inl e) (Inl e) = Inl e"
  by (simp add: mergeFamilies_def)

text \<open>
  C3, as amended. For every zone stored under the normalised host name: in a store where
  no zone has a configured error, the combined lookup succeeds whenever the zone's A or
  AAAA record set is non-empty; when both are non-empty it returns the records of both
  sets, each as often as it occurs in them; and when it fails, it fails with NotFound
  and the lookups of both families fail with NotFound. When the zone has \<open>Err\<close> set, the
  combined lookup fails with that error, whatever records the zone and the rest of the
  store hold.
\<close>

theorem LookupIP_both_families:
  assumes "zones (ToLower l (Fqdn l host)) = Some z"
  shows "(noErrors zones \<and> (A z \<noteq> [] \<or> AAAA z \<noteq> []) \<longrightarrow>
            (\<exists>addrs. LookupIP l (Suc bound) zones IPBoth host = Inr addrs)) \<and>
         (noErrors zones \<and> A z \<noteq> [] \<and> AAAA z \<noteq> [] \<longrightarrow>
            (\<exists>addrs. LookupIP l (Suc bound) zones IPBoth host = Inr addrs \<and>
               mset addrs = mset (A z) + mset (AAAA z))) \<and>
         (noErrors zones \<longrightarrow>
            (\<forall>e. LookupIP l (Suc bound) zones IPBoth host = Inl e \<longrightarrow>
               isNotFound e \<and>
               (\<exists>ea. LookupIP l (Suc bound) zones IP4 host = Inl ea \<and> isNotFound ea) \<and>
               (\<exists>eb. LookupIP l (Suc bound) zones IP6 host = Inl eb \<and> isNotFound eb))) \<and>
         (\<forall>e. Err z = Some e \<longrightarrow> LookupIP l (Suc bound) zones IPBoth host = Inl e)"
proof -
  let ?ra = "snd (snd (lookup l (Suc bound) zones A host))"
  let ?rb = "snd (snd (lookup l (Suc bound) zones AAAA host))"
  have both: "LookupIP l (Suc bound) zones IPBoth host = mergeFamilies ?ra ?rb"
    by (simp add: LookupIP_def)
  have c4: "\<forall>e. Err z = Some e \<longrightarrow> LookupIP l (Suc bound) zones IPBoth host = Inl e"
    using assms unfolding both by (simp add: lookup_Err mergeFamilies_same_error)
  have rest: "(A z \<noteq> [] \<or> AAAA z \<noteq> [] \<longrightarrow>
            (\<exists>addrs. LookupIP l (Suc bound) zones IPBoth host = Inr addrs)) \<and>
         (A z \<noteq> [] \<and> AAAA z \<noteq> [] \<longrightarrow>
            (\<exists>addrs. LookupIP l (Suc bound) zones IPBoth host = Inr addrs \<and>
               mset addrs = mset (A z) + mset (AAAA z))) \<and>
         (\<forall>e. LookupIP l (Suc bound) zones IPBoth host = Inl e \<longrightarrow>
               isNotFound e \<and>
               (\<exists>ea. LookupIP l (Suc bound) zones IP4 host = Inl ea \<and> isNotFound ea) \<and>
               (\<exists>eb. LookupIP l (Suc bound) zones IP6 host = Inl eb \<and> isNotFound eb))"
    if ne: "noErrors zones"
  proof -
    have ez: "Err z = None"
      using ne assms
      by (auto simp add: noErrors_def split: option.splits
          dest: spec [of _ "ToLower l (Fqdn l host)"])
    have nfa: "isNotFound e" if "?ra = Inl e" for e
      using that lookupChain_noErrors [OF ne, of "Suc bound" A "[]" "ToLower l (Fqdn l host)"]
      by (cases "lookupChain (Suc bound) zones A [] (ToLower l (Fqdn l host))")
         (auto simp add: lookup_def)
    have nfb: "isNotFound e" if "?rb = Inl e" for e
      using that lookupChain_noErrors [OF ne, of "Suc bound" AAAA "[]" "ToLower l (Fqdn l host)"]
      by (cases "lookupChain (Suc bound) zones AAAA [] (ToLower l (Fqdn l host))")
         (auto simp add: lookup_def)
    have hitA: "A z \<noteq> [] \<Longrightarrow> ?ra = Inr (A z)"
      using assms ez by (simp add: lookup_hit)
    have hitB: "AAAA z \<noteq> [] \<Longrightarrow> ?rb = Inr (AAAA z)"
      using assms ez by (simp add: lookup_hit)
    have c1: "A z \<noteq> [] \<or> AAAA z \<noteq> [] \<longrightarrow>
              (\<exists>addrs. LookupIP l (Suc bound) zones IPBoth host = Inr addrs)"
      using hitA hitB nfa nfb unfolding both
      by (cases ?ra; cases ?rb) (auto simp add: mergeFamilies_def)
    have c2: "A z \<noteq> [] \<and> AAAA z \<noteq> [] \<longrightarrow>
              (\<exists>addrs. LookupIP l (Suc bound) zones IPBoth host = Inr addrs \<and>
                 mset addrs = mset (A z) + mset (AAAA z))"
      using hitA hitB unfolding both by (auto simp add: mergeFamilies_def)
    have c3: "\<forall>e. LookupIP l (Suc bound) zones IPBoth host = Inl e \<longrightarrow>
              isNotFound e \<and>
              (\<exists>ea. LookupIP l (Suc bound) zones IP4 host = Inl ea \<and> isNotFound ea) \<and>
              (\<exists>eb. LookupIP l (Suc bound) zones IP6 host = Inl eb \<and> isNotFound eb)"
      using nfa nfb unfolding both
      by (cases ?ra; cases ?rb) (auto simp add: mergeFamilies_def LookupIP_def split: if_splits)
    show ?thesis using c1 c2 c3 by blast
  qed
  show ?thesis using rest c4 by blast
qed

lemma norm_example_com: "asciiToLower (asciiFqdn ''example.com'') = ''example.com.''"
  by (simp add: asciiToLower_def asciiFqdn_def asciiLowerChar_def)

lemma norm_example_org: "asciiToLower (asciiFqdn ''example.org'') = ''example.org.''"
  by (simp add: asciiToLower_def asciiFqdn_def asciiLowerChar_def)

lemma noErrors_ipZones: "noErrors ipZones"
  by (simp add: noErrors_def ipZones_def zeroZone_def)

theorem LookupIP_both_families_witness:
  "noErrors ipZones \<and>
   (\<exists>addrs. LookupIP asciiLib 8 ipZones IPBoth ''example.com'' = Inr addrs \<and>
      mset addrs = mset [''192.168.0.1'', ''10.0.0.1''] + mset [''2001:db8::1'', ''2001:db8::2'']) \<and>
   LookupIP asciiLib 8 errZones IPBoth ''www.example.org'' = Inl (OtherError ''boom'')"
proof -
  let ?z = "zeroZone\<lparr>A := [''192.168.0.1'', ''10.0.0.1''], AAAA := [''2001:db8::1'', ''2001:db8::2'']\<rparr>"
  let ?w = "zeroZone\<lparr>Err := Some (OtherError ''boom''), CNAME := ''foo.bar.com.''\<rparr>"
  have zf: "ipZones (ToLower asciiLib (Fqdn asciiLib ''example.com'')) = Some ?z"
    by (simp add: norm_example_com ipZones_def)
  have wf: "errZones (ToLower asciiLib (Fqdn asciiLib ''www.example.org'')) = Some ?w"
    by (simp add: norm_www_org errZones_def)
  from LookupIP_both_families [where zones = ipZones and l = asciiLib and host = "''example.com''"
      and z = ?z and bound = 7, OF zf] noErrors_ipZones
  have a: "\<exists>addrs. LookupIP asciiLib (Suc 7) ipZones IPBoth ''example.com'' = Inr addrs \<and>
      mset addrs = mset [''192.168.0.1'', ''10.0.0.1''] + mset [''2001:db8::1'', ''2001:db8::2'']"
    by (simp add: zeroZone_def)
  from LookupIP_both_families [where zones = errZones and l = asciiLib and host = "''www.example.org''"
      and z = ?w and bound = 7, OF wf]
  have b: "LookupIP asciiLib (Suc 7) errZones IPBoth ''www.example.org'' = Inl (OtherError ''boom'')"
    by (simp add: zeroZone_def)
  show ?thesis using a b noErrors_ipZones by simp
qed

text \<open>
  C3 as stated fails: a zone with an A record and \<open>Err\<close> set fails the combined lookup
  with the configured error.
\<close>

theorem LookupIP_configured_error_counterexample:
  "(\<exists>z. errA (asciiToLower (asciiFqdn ''example.org'')) = Some z \<and> A z = [''1.2.3.4'']) \<and>
   LookupIP asciiLib 8 errA IPBoth ''example.org'' = Inl (OtherError ''boom'')"
  by (simp add: norm_example_org errA_def LookupIP_def lookup_def mergeFamilies_def
      isNotFound_def eval_nat_numeral zeroZone_def)

subsection \<open>C6: a second \<open>AppendRR\<close> appends, except for CNAME\<close>

text \<open>
  C6, as amended. For every server, every name and each multi-valued record type (A,
  AAAA, TXT, PTR, NS, MX, SRV), two successive \<open>AppendRR\<close> calls of that type on the name
  leave, in the zone stored under the name's key (the name with its trailing dot, letters
  as given), the records the zone had before followed by the first new value and then
  the second (for MX and SRV: the two parsed records, when both values parse); for CNAME
  the zone holds the second target only. A subsequent lookup returns these records in
  that order when the name it asks for normalises to the key: for the types the resolver
  answers (A, AAAA, TXT, NS, MX, SRV) the lower-cased fully qualified name must be the
  key and the zone must have no configured error; a PTR query is answered from the zone
  stored under the query name as given; a CNAME query whose lower-cased fully qualified
  name is the key is answered with the second target, when that is not empty.
\<close>

theorem AppendRR_appends_CNAME_replaces:
  assumes "key = dotted name" and "z = getZone s key"
  shows "A (getZone (AppendRR2 s name TypeA da db) key) = A z @ [da, db] \<and>
         AAAA (getZone (AppendRR2 s name TypeAAAA da db) key) = AAAA z @ [da, db] \<and>
         TXT (getZone (AppendRR2 s name TypeTXT da db) key) = TXT z @ [da, db] \<and>
         PTR (getZone (AppendRR2 s name TypePTR da db) key) = PTR z @ [da, db] \<and>
         NS (getZone (AppendRR2 s name TypeNS da db) key) =
           NS z @ [\<lparr>NS_Host = da\<rparr>, \<lparr>NS_Host = db\<rparr>] \<and>
         (\<forall>ma mb. parseMX da = Inr ma \<and> parseMX db = Inr mb \<longrightarrow>
            MX (getZone (AppendRR2 s name TypeMX da db) key) = MX z @ [ma, mb]) \<and>
         (\<forall>va vb. parseSRV da = Inr va \<and> parseSRV db = Inr vb \<longrightarrow>
            SRV (getZone (AppendRR2 s name TypeSRV da db) key) = SRV z @ [va, vb]) \<and>
         CNAME (getZone (AppendRR2 s name TypeCNAME da db) key) = db \<and>
         (Err z = None \<and> ToLower l (Fqdn l nm) = key \<longrightarrow>
            lookup l (Suc bound) (Zones (r (AppendRR2 s name TypeA da db))) A nm =
              ([], key, Inr (A z @ [da, db])) \<and>
            lookup l (Suc bound) (Zones (r (AppendRR2 s name TypeAAAA da db))) AAAA nm =
              ([], key, Inr (AAAA z @ [da, db])) \<and>
            lookup l (Suc bound) (Zones (r (AppendRR2 s name TypeTXT da db))) TXT nm =
              ([], key, Inr (TXT z @ [da, db])) \<and>
            lookup l (Suc bound) (Zones (r (AppendRR2 s name TypeNS da db))) NS nm =
              ([], key, Inr (NS z @ [\<lparr>NS_Host = da\<rparr>, \<lparr>NS_Host = db\<rparr>])) \<and>
            (\<forall>ma mb. parseMX da = Inr ma \<and> parseMX db = Inr mb \<longrightarrow>
               lookup l (Suc bound) (Zones (r (AppendRR2 s name TypeMX da db))) MX nm =
                 ([], key, Inr (MX z @ [ma, mb]))) \<and>
            (\<forall>va vb. parseSRV da = Inr va \<and> parseSRV db = Inr vb \<longrightarrow>
               lookup l (Suc bound) (Zones (r (AppendRR2 s name TypeSRV da db))) SRV nm =
                 ([], key, Inr (SRV z @ [va, vb])))) \<and>
         (\<forall>rm m q qs. Opcode m = OpcodeQuery \<and> Question m = q # qs \<and>
              Qclass q = ClassINET \<and> Qtype q = TypePTR \<and> Q_Name q = key \<longrightarrow>
            (\<exists>rep. ServeDNS l rm (AppendRR2 s name TypePTR da db) m = Wrote rep \<and>
               Rcode rep = RcodeSuccess \<and> Answer rep = map (mkPTR key) (PTR z @ [da, db]))) \<and>
         (\<forall>rm m q qs. Opcode m = OpcodeQuery \<and> Question m = q # qs \<and>
              Qclass q = ClassINET \<and> Qtype q = TypeCNAME \<and>
              ToLower l (Fqdn l (Q_Name q)) = key \<and> db \<noteq> [] \<longrightarrow>
            (\<exists>rep. ServeDNS l rm (AppendRR2 s name TypeCNAME da db) m = Wrote rep \<and>
               Rcode rep = RcodeSuccess \<and> Answer rep = [mkCname key db]))"
proof -
  have store: "A (getZone (AppendRR2 s name TypeA da db) key) = A z @ [da, db] \<and>
         AAAA (getZone (AppendRR2 s name TypeAAAA da db) key) = AAAA z @ [da, db] \<and>
         TXT (getZone (AppendRR2 s name TypeTXT da db) key) = TXT z @ [da, db] \<and>
         PTR (getZone (AppendRR2 s name TypePTR da db) key) = PTR z @ [da, db] \<and>
         NS (getZone (AppendRR2 s name TypeNS da db) key) =
           NS z @ [\<lparr>NS_Host = da\<rparr>, \<lparr>NS_Host = db\<rparr>] \<and>
         (\<forall>ma mb. parseMX da = Inr ma \<and> parseMX db = Inr mb \<longrightarrow>
            MX (getZone (AppendRR2 s name TypeMX da db) key) = MX z @ [ma, mb]) \<and>
         (\<forall>va vb. parseSRV da = Inr va \<and> parseSRV db = Inr vb \<longrightarrow>
            SRV (getZone (AppendRR2 s name TypeSRV da db) key) = SRV z @ [va, vb]) \<and>
         CNAME (getZone (AppendRR2 s name TypeCNAME da db) key) = db"
    using assms
    by (simp add: AppendRR2_def AppendRR_A AppendRR_AAAA AppendRR_TXT AppendRR_PTR AppendRR_NS
        AppendRR_MX AppendRR_SRV AppendRR_CNAME getZone_setZone)
  have look: "lookup l (Suc bound) (Zones (r (AppendRR2 s name TypeA da db))) A nm =
              ([], key, Inr (A z @ [da, db])) \<and>
            lookup l (Suc bound) (Zones (r (AppendRR2 s name TypeAAAA da db))) AAAA nm =
              ([], key, Inr (AAAA z @ [da, db])) \<and>
            lookup l (Suc bound) (Zones (r (AppendRR2 s name TypeTXT da db))) TXT nm =
              ([], key, Inr (TXT z @ [da, db])) \<and>
            lookup l (Suc bound) (Zones (r (AppendRR2 s name TypeNS da db))) NS nm =
              ([], key, Inr (NS z @ [\<lparr>NS_Host = da\<rparr>, \<lparr>NS_Host = db\<rparr>])) \<and>
            (\<forall>ma mb. parseMX da = Inr ma \<and> parseMX db = Inr mb \<longrightarrow>
               lookup l (Suc bound) (Zones (r (AppendRR2 s name TypeMX da db))) MX nm =
                 ([], key, Inr (MX z @ [ma, mb]))) \<and>
            (\<forall>va vb. parseSRV da = Inr va \<and> parseSRV db = Inr vb \<longrightarrow>
               lookup l (Suc bound) (Zones (r (AppendRR2 s name TypeSRV da db))) SRV nm =
                 ([], key, Inr (SRV z @ [va, vb])))"
    if ez: "Err z = None" and nk: "ToLower l (Fqdn l nm) = key"
  proof -
    have a: "lookup l (Suc bound) (Zones (r (AppendRR2 s name TypeA da db))) A nm =
              ([], key, Inr (A z @ [da, db]))"
      using assms ez nk by (simp add: lookup_def Zones_AppendRR2_A)
    have b: "lookup l (Suc bound) (Zones (r (AppendRR2 s name TypeAAAA da db))) AAAA nm =
              ([], key, Inr (AAAA z @ [da, db]))"
      using assms ez nk by (simp add: lookup_def Zones_AppendRR2_AAAA)
    have c: "lookup l (Suc bound) (Zones (r (AppendRR2 s name TypeTXT da db))) TXT nm =
              ([], key, Inr (TXT z @ [da, db]))"
      using assms ez nk by (simp add: lookup_def Zones_AppendRR2_TXT)
    have d: "lookup l (Suc bound) (Zones (r (AppendRR2 s name TypeNS da db))) NS nm =
              ([], key, Inr (NS z @ [\<lparr>NS_Host = da\<rparr>, \<lparr>NS_Host = db\<rparr>]))"
      using assms ez nk by (simp add: lookup_def Zones_AppendRR2_NS)
    have e: "lookup l (Suc bound) (Zones (r (AppendRR2 s name TypeMX da db))) MX nm =
                 ([], key, Inr (MX z @ [ma, mb]))"
      if "parseMX da = Inr ma" and "parseMX db = Inr mb" for ma mb
      using assms ez nk that by (simp add: lookup_def Zones_AppendRR2_MX)
    have f: "lookup l (Suc bound) (Zones (r (AppendRR2 s name TypeSRV da db))) SRV nm =
                 ([], key, Inr (SRV z @ [va, vb]))"
      if "parseSRV da = Inr va" and "parseSRV db = Inr vb" for va vb
      using assms ez nk that by (simp add: lookup_def Zones_AppendRR2_SRV)
    show ?thesis using a b c d e f by blast
  qed
  have ptr: "\<exists>rep. ServeDNS l rm (AppendRR2 s name TypePTR da db) m = Wrote rep \<and>
               Rcode rep = RcodeSuccess \<and> Answer rep = map (mkPTR key) (PTR z @ [da, db])"
    if "Opcode m = OpcodeQuery" and "Question m = q # qs" and "Qclass q = ClassINET"
      and "Qtype q = TypePTR" and "Q_Name q = key" for rm m q qs
    using that assms
      PTR_query_present [where m = m and q = q and qs = qs and l = l and rm = rm
        and s = "AppendRR2 s name TypePTR da db"
        and z = "(getZone s (dotted name))\<lparr>PTR := PTR (getZone s (dotted name)) @ [da, db]\<rparr>"]
    by (simp add: Zones_AppendRR2_PTR)
  have cn: "\<exists>rep. ServeDNS l rm (AppendRR2 s name TypeCNAME da db) m = Wrote rep \<and>
               Rcode rep = RcodeSuccess \<and> Answer rep = [mkCname key db]"
    if "Opcode m = OpcodeQuery" and "Question m = q # qs" and "Qclass q = ClassINET"
      and "Qtype q = TypeCNAME" and "ToLower l (Fqdn l (Q_Name q)) = key" and "db \<noteq> []"
    for rm m q qs
    using that assms
      CNAME_query_present [where m = m and q = q and qs = qs and l = l and rm = rm
        and s = "AppendRR2 s name TypeCNAME da db"
        and z = "(getZone s (dotted name))\<lparr>CNAME := db\<rparr>"]
    by (simp add: Zones_AppendRR2_CNAME)
  show ?thesis using store look ptr cn by blast
qed

theorem AppendRR_appends_CNAME_replaces_witness:
  "dotted ''foo.io'' = ''foo.io.'' \<and>
   asciiToLower (asciiFqdn ''foo.io'') = ''foo.io.'' \<and>
   parseMX ''19 bar.io.'' = Inr \<lparr>MX_Host = ''bar.io.'', MX_Pref = 19\<rparr> \<and>
   parseMX ''23 zoom.io.'' = Inr \<lparr>MX_Host = ''zoom.io.'', MX_Pref = 23\<rparr> \<and>
   MX (getZone (AppendRR2 (mkServer Map.empty False) ''foo.io'' TypeMX ''19 bar.io.'' ''23 zoom.io.'')
      ''foo.io.'') =
     [\<lparr>MX_Host = ''bar.io.'', MX_Pref = 19\<rparr>, \<lparr>MX_Host = ''zoom.io.'', MX_Pref = 23\<rparr>] \<and>
   lookup asciiLib 8
     (Zones (r (AppendRR2 (mkServer Map.empty False) ''foo.io'' TypeMX ''19 bar.io.'' ''23 zoom.io.'')))
     MX ''foo.io'' =
     ([], ''foo.io.'',
      Inr [\<lparr>MX_Host = ''bar.io.'', MX_Pref = 19\<rparr>, \<lparr>MX_Host = ''zoom.io.'', MX_Pref = 23\<rparr>]) \<and>
   TXT (getZone (AppendRR2 (mkServer Map.empty False) ''foo.io'' TypeTXT ''v=spf1 -all'' ''k=rsa'')
      ''foo.io.'') = [''v=spf1 -all'', ''k=rsa''] \<and>
   lookup asciiLib 8
     (Zones (r (AppendRR2 (mkServer Map.empty False) ''foo.io'' TypeTXT ''v=spf1 -all'' ''k=rsa'')))
     TXT ''foo.io'' = ([], ''foo.io.'', Inr [''v=spf1 -all'', ''k=rsa'']) \<and>
   CNAME (getZone (AppendRR2 (mkServer Map.empty False) ''foo.io'' TypeCNAME ''bar.io.'' ''zoom.io.'')
      ''foo.io.'') = ''zoom.io.'' \<and>
   respondsWith
     (ServeDNS asciiLib (engineMethods asciiLib 8)
        (AppendRR2 (mkServer Map.empty False) ''foo.io'' TypePTR ''bar.io.'' ''zoom.io.'')
        (mkQuery ''foo.io.'' TypePTR))
     RcodeSuccess [mkPTR ''foo.io.'' ''bar.io.'', mkPTR ''foo.io.'' ''zoom.io.''] \<and>
   respondsWith
     (ServeDNS asciiLib (engineMethods asciiLib 8)
        (AppendRR2 (mkServer Map.empty False) ''foo.io'' TypeCNAME ''bar.io.'' ''zoom.io.'')
        (mkQuery ''foo.io'' TypeCNAME))
     RcodeSuccess [mkCname ''foo.io.'' ''zoom.io.'']"
proof -
  have m1: "parseMX ''19 bar.io.'' = Inr \<lparr>MX_Host = ''bar.io.'', MX_Pref = 19\<rparr>" by code_simp
  have m2: "parseMX ''23 zoom.io.'' = Inr \<lparr>MX_Host = ''zoom.io.'', MX_Pref = 23\<rparr>" by code_simp
  have e: "Err zeroZone = None" by (simp add: zeroZone_def)
  have z: "zeroZone = getZone (mkServer Map.empty False) ''foo.io.''" by (simp add: getZone_empty)
  have k: "''foo.io.'' = dotted ''foo.io''" by (simp add: not_suffix_foo)
  have n: "ToLower asciiLib (Fqdn asciiLib ''foo.io'') = ''foo.io.''" by (simp add: norm_foo_io)
  note mx = AppendRR_appends_CNAME_replaces [where key = "''foo.io.''" and name = "''foo.io''"
      and s = "mkServer Map.empty False" and z = zeroZone and da = "''19 bar.io.''"
      and db = "''23 zoom.io.''" and l = asciiLib and nm = "''foo.io''" and bound = 7, OF k z]
  note tx = AppendRR_appends_CNAME_replaces [where key = "''foo.io.''" and name = "''foo.io''"
      and s = "mkServer Map.empty False" and z = zeroZone and da = "''v=spf1 -all''"
      and db = "''k=rsa''" and l = asciiLib and nm = "''foo.io''" and bound = 7, OF k z]
  note cn = AppendRR_appends_CNAME_replaces [where key = "''foo.io.''" and name = "''foo.io''"
      and s = "mkServer Map.empty False" and z = zeroZone and da = "''bar.io.''"
      and db = "''zoom.io.''" and l = asciiLib and nm = "''foo.io''" and bound = 7, OF k z]
  have a1: "MX (getZone (AppendRR2 (mkServer Map.empty False) ''foo.io'' TypeMX ''19 bar.io.'' ''23 zoom.io.'')
      ''foo.io.'') =
     [\<lparr>MX_Host = ''bar.io.'', MX_Pref = 19\<rparr>, \<lparr>MX_Host = ''zoom.io.'', MX_Pref = 23\<rparr>]"
    using mx m1 m2 by (simp add: zeroZone_def)
  have a2: "lookup asciiLib 8
     (Zones (r (AppendRR2 (mkServer Map.empty False) ''foo.io'' TypeMX ''19 bar.io.'' ''23 zoom.io.'')))
     MX ''foo.io'' =
     ([], ''foo.io.'',
      Inr [\<lparr>MX_Host = ''bar.io.'', MX_Pref = 19\<rparr>, \<lparr>MX_Host = ''zoom.io.'', MX_Pref = 23\<rparr>])"
    using mx m1 m2 e n by (simp add: zeroZone_def)
  have a3: "TXT (getZone (AppendRR2 (mkServer Map.empty False) ''foo.io'' TypeTXT ''v=spf1 -all'' ''k=rsa'')
      ''foo.io.'') = [''v=spf1 -all'', ''k=rsa'']"
    using tx by (simp add: zeroZone_def)
  have a4: "lookup asciiLib 8
     (Zones (r (AppendRR2 (mkServer Map.empty False) ''foo.io'' TypeTXT ''v=spf1 -all'' ''k=rsa'')))
     TXT ''foo.io'' = ([], ''foo.io.'', Inr [''v=spf1 -all'', ''k=rsa''])"
    using tx e n by (simp add: zeroZone_def)
  have a5: "CNAME (getZone (AppendRR2 (mkServer Map.empty False) ''foo.io'' TypeCNAME ''bar.io.'' ''zoom.io.'')
      ''foo.io.'') = ''zoom.io.''"
    using cn by simp
  have p: "\<forall>rm m q qs. Opcode m = OpcodeQuery \<and> Question m = q # qs \<and>
              Qclass q = ClassINET \<and> Qtype q = TypePTR \<and> Q_Name q = ''foo.io.'' \<longrightarrow>
            (\<exists>rep. ServeDNS asciiLib rm
                (AppendRR2 (mkServer Map.empty False) ''foo.io'' TypePTR ''bar.io.'' ''zoom.io.'') m =
                  Wrote rep \<and>
               Rcode rep = RcodeSuccess \<and>
               Answer rep = map (mkPTR ''foo.io.'') (PTR zeroZone @ [''bar.io.'', ''zoom.io.'']))"
    using cn by blast
  from p [rule_format, where m = "mkQuery ''foo.io.'' TypePTR"
        and q = "\<lparr>Q_Name = ''foo.io.'', Qtype = TypePTR, Qclass = ClassINET\<rparr>"
        and qs = "[]" and rm = "engineMethods asciiLib 8"]
  have a6: "respondsWith
     (ServeDNS asciiLib (engineMethods asciiLib 8)
        (AppendRR2 (mkServer Map.empty False) ''foo.io'' TypePTR ''bar.io.'' ''zoom.io.'')
        (mkQuery ''foo.io.'' TypePTR))
     RcodeSuccess [mkPTR ''foo.io.'' ''bar.io.'', mkPTR ''foo.io.'' ''zoom.io.'']"
    by (auto simp add: mkQuery_fields respondsWith_def zeroZone_def)
  have c: "\<forall>rm m q qs. Opcode m = OpcodeQuery \<and> Question m = q # qs \<and>
              Qclass q = ClassINET \<and> Qtype q = TypeCNAME \<and>
              ToLower asciiLib (Fqdn asciiLib (Q_Name q)) = ''foo.io.'' \<and> ''zoom.io.'' \<noteq> [] \<longrightarrow>
            (\<exists>rep. ServeDNS asciiLib rm
                (AppendRR2 (mkServer Map.empty False) ''foo.io'' TypeCNAME ''bar.io.'' ''zoom.io.'') m =
                  Wrote rep \<and>
               Rcode rep = RcodeSuccess \<and> Answer rep = [mkCname ''foo.io.'' ''zoom.io.''])"
    using cn by blast
  from c [rule_format, where m = "mkQuery ''foo.io'' TypeCNAME"
        and q = "\<lparr>Q_Name = ''foo.io'', Qtype = TypeCNAME, Qclass = ClassINET\<rparr>"
        and qs = "[]" and rm = "engineMethods asciiLib 8"]
  have a7: "respondsWith
     (ServeDNS asciiLib (engineMethods asciiLib 8)
        (AppendRR2 (mkServer Map.empty False) ''foo.io'' TypeCNAME ''bar.io.'' ''zoom.io.'')
        (mkQuery ''foo.io'' TypeCNAME))
     RcodeSuccess [mkCname ''foo.io.'' ''zoom.io.'']"
    by (auto simp add: mkQuery_fields respondsWith_def norm_foo_io)
  show ?thesis using k [symmetric] norm_foo_io m1 m2 a1 a2 a3 a4 a5 a6 a7 by blast
qed

text \<open>
  C6 as stated fails. Two A records added under \<open>Mail.io\<close> are stored, in order, under
  \<open>Mail.io.\<close>; the handler asks the resolver for the lower-cased name \<open>mail.io.\<close>,
  under which the store has nothing, so the lookup ends in NotFound and the A query is
  answered NXDOMAIN with no answer record. Two TXT records added to a zone that has
  \<open>Err\<close> set are stored, in order, and the lookup fails with the configured error.
\<close>

theorem AppendRR_mixed_case_lookup_counterexample:
  "A (getZone (AppendRR2 (mkServer Map.empty False) ''Mail.io'' TypeA ''1.2.3.4'' ''5.6.7.8'')
      ''Mail.io.'') = [''1.2.3.4'', ''5.6.7.8''] \<and>
   asciiToLower (asciiFqdn ''Mail.io'') = ''mail.io.'' \<and>
   Zones (r (AppendRR2 (mkServer Map.empty False) ''Mail.io'' TypeA ''1.2.3.4'' ''5.6.7.8''))
      ''mail.io.'' = None \<and>
   lookup asciiLib 8
     (Zones (r (AppendRR2 (mkServer Map.empty False) ''Mail.io'' TypeA ''1.2.3.4'' ''5.6.7.8'')))
     A ''Mail.io'' = ([], ''mail.io.'', Inl (notFound ''mail.io.'')) \<and>
   nxdomainWith
     (ServeDNS asciiLib (engineMethods asciiLib 8)
        (AppendRR2 (mkServer Map.empty False) ''Mail.io'' TypeA ''1.2.3.4'' ''5.6.7.8'')
        (mkQuery ''Mail.io'' TypeA))
     ''mail.io.'' [] \<and>
   TXT (getZone (AppendRR2 (mkServer errZones False) ''www.example.org'' TypeTXT ''one'' ''two'')
      ''www.example.org.'') = [''one'', ''two''] \<and>
   lookup asciiLib 8
     (Zones (r (AppendRR2 (mkServer errZones False) ''www.example.org'' TypeTXT ''one'' ''two'')))
     TXT ''www.example.org'' = ([], ''www.example.org.'', Inl (OtherError ''boom''))"
proof -
  let ?s = "AppendRR2 (mkServer Map.empty False) ''Mail.io'' TypeA ''1.2.3.4'' ''5.6.7.8''"
  let ?e = "AppendRR2 (mkServer errZones False) ''www.example.org'' TypeTXT ''one'' ''two''"
  have st: "Zones (r ?s) k =
      (if k = ''Mail.io.'' then Some (zeroZone\<lparr>A := [''1.2.3.4'', ''5.6.7.8'']\<rparr>) else None)" for k
    by (simp add: AppendRR2_def AppendRR_A Zones_setZone getZone_setZone dotted_Mail_io
        getZone_empty mkServer_fields zeroZone_def)
  have a: "A (getZone ?s ''Mail.io.'') = [''1.2.3.4'', ''5.6.7.8'']"
    by (simp add: getZone_def st)
  have b: "Zones (r ?s) ''mail.io.'' = None"
    by (simp add: st)
  have c: "lookup asciiLib 8 (Zones (r ?s)) A ''Mail.io'' =
      ([], ''mail.io.'', Inl (notFound ''mail.io.''))"
    using b by (simp add: lookup_def norm_Mail_io lookupChain_absent)
  have l2: "lookup asciiLib 8 (Zones (r ?s)) A ''mail.io.'' =
      ([], ''mail.io.'', Inl (notFound ''mail.io.''))"
    using b by (simp add: lookup_def asciiToLower_def asciiFqdn_def asciiLowerChar_def
        lookupChain_absent)
  have q: "answerQuestion asciiLib (engineMethods asciiLib 8) ?s
       \<lparr>Q_Name = ''Mail.io'', Qtype = TypeA, Qclass = ClassINET\<rparr> ''mail.io.'' reply =
     Failed (reply\<lparr>AuthenticatedData := False\<rparr>) (notFound ''mail.io.'')" for reply
    by (simp add: answerQuestion_def engineMethods_def engineMethod_def l2 resolved_failed)
  have d: "nxdomainWith (ServeDNS asciiLib (engineMethods asciiLib 8) ?s (mkQuery ''Mail.io'' TypeA))
      ''mail.io.'' []"
    by (simp add: ServeDNS_mkQuery norm_Mail_io q nxdomainWith_def writeErr_fields
        initReply_flags notFound_def isNotFound_def)
  have se: "Zones (r ?e) ''www.example.org.'' =
      Some (zeroZone\<lparr>Err := Some (OtherError ''boom''), CNAME := ''foo.bar.com.'',
        TXT := [''one'', ''two'']\<rparr>)"
    using Zones_AppendRR2_TXT [of "mkServer errZones False" "''www.example.org''" "''one''" "''two''"]
    by (simp add: dotted_www_org getZone_mkServer errZones_def zeroZone_def)
  have f: "TXT (getZone ?e ''www.example.org.'') = [''one'', ''two'']"
    by (simp add: getZone_def se)
  have g: "lookup asciiLib 8 (Zones (r ?e)) TXT ''www.example.org'' =
      ([], ''www.example.org.'', Inl (OtherError ''boom''))"
    by (simp add: lookup_def norm_www_org se eval_nat_numeral)
  show ?thesis using a norm_Mail_io b c d f g by blast
qed

subsection \<open>C8: \<open>RemoveRR\<close> deletes a zone left without records\<close>

text \<open>
  C8, as amended. For every server, name and record type, after \<open>RemoveRR\<close> the store
  holds under the name's key (the name with its trailing dot, letters as given) either
  nothing or a zone that \<open>isZoneEmpty\<close> rejects: when the zone with the records of that
  type dropped has no records left, the entry is deleted, and otherwise that zone is
  stored. The store is unchanged under every other key. After a deletion a CNAME query
  whose lower-cased fully qualified name is the key and a PTR query whose name is the key
  are answered NXDOMAIN, and every lookup of the resolution engine for a name normalised
  to the key ends in NotFound.
\<close>

theorem RemoveRR_prunes_empty_zone:
  assumes "key = dotted name" and "zone' = clearRR (getZone s key) rrType"
    and "s' = RemoveRR s name rrType"
  shows "(isZoneEmpty zone' \<longrightarrow> Zones (r s') key = None) \<and>
         (\<not> isZoneEmpty zone' \<longrightarrow> Zones (r s') key = Some zone') \<and>
         (\<forall>z. Zones (r s') key = Some z \<longrightarrow> \<not> isZoneEmpty z) \<and>
         (\<forall>k. k \<noteq> key \<longrightarrow> Zones (r s') k = Zones (r s) k) \<and>
         (isZoneEmpty zone' \<longrightarrow>
            (\<forall>l rm m q qs. Opcode m = OpcodeQuery \<and> Question m = q # qs \<and>
                 Qclass q = ClassINET \<and> Qtype q = TypeCNAME \<and>
                 ToLower l (Fqdn l (Q_Name q)) = key \<longrightarrow>
               (\<exists>rep. ServeDNS l rm s' m = Wrote rep \<and> Rcode rep = RcodeNameError))) \<and>
         (isZoneEmpty zone' \<longrightarrow>
            (\<forall>l rm m q qs. Opcode m = OpcodeQuery \<and> Question m = q # qs \<and>
                 Qclass q = ClassINET \<and> Qtype q = TypePTR \<and> Q_Name q = key \<longrightarrow>
               (\<exists>rep. ServeDNS l rm s' m = Wrote rep \<and> Rcode rep = RcodeNameError))) \<and>
         (isZoneEmpty zone' \<longrightarrow>
            (\<forall>l n fld nm. ToLower l (Fqdn l nm) = key \<longrightarrow>
               lookup l n (Zones (r s')) fld nm = ([], key, Inl (notFound key))))"
proof -
  have at: "Zones (r s') key = (if isZoneEmpty zone' then None else Some zone')"
    using assms by (simp add: RemoveRR_at_key)
  have c1: "isZoneEmpty zone' \<longrightarrow> Zones (r s') key = None" using at by simp
  have c2: "\<not> isZoneEmpty zone' \<longrightarrow> Zones (r s') key = Some zone'" using at by simp
  have c3: "\<forall>z. Zones (r s') key = Some z \<longrightarrow> \<not> isZoneEmpty z"
    using at by (auto split: if_splits)
  have c4: "\<forall>k. k \<noteq> key \<longrightarrow> Zones (r s') k = Zones (r s) k"
    using assms by (simp add: RemoveRR_other_keys)
  have c5: "isZoneEmpty zone' \<longrightarrow>
            (\<forall>l rm m q qs. Opcode m = OpcodeQuery \<and> Question m = q # qs \<and>
                 Qclass q = ClassINET \<and> Qtype q = TypeCNAME \<and>
                 ToLower l (Fqdn l (Q_Name q)) = key \<longrightarrow>
               (\<exists>rep. ServeDNS l rm s' m = Wrote rep \<and> Rcode rep = RcodeNameError))"
    using c1 CNAME_query_absent by blast
  have c6: "isZoneEmpty zone' \<longrightarrow>
            (\<forall>l rm m q qs. Opcode m = OpcodeQuery \<and> Question m = q # qs \<and>
                 Qclass q = ClassINET \<and> Qtype q = TypePTR \<and> Q_Name q = key \<longrightarrow>
               (\<exists>rep. ServeDNS l rm s' m = Wrote rep \<and> Rcode rep = RcodeNameError))"
    using c1 PTR_query_absent by blast
  have c7: "isZoneEmpty zone' \<longrightarrow>
            (\<forall>l n fld nm. ToLower l (Fqdn l nm) = key \<longrightarrow>
               lookup l n (Zones (r s')) fld nm = ([], key, Inl (notFound key)))"
    using c1 by (simp add: lookup_def lookupChain_absent)
  show ?thesis using c1 c2 c3 c4 c5 c6 c7 by blast
qed

theorem RemoveRR_prunes_empty_zone_witness:
  "dotted ''foo.io'' = ''foo.io.'' \<and>
   isZoneEmpty (clearRR (getZone (mkServer oneA False) ''foo.io.'') TypeA) \<and>
   Zones (r (mkServer oneA False)) ''foo.io.'' \<noteq> None \<and>
   Zones (r (RemoveRR (mkServer oneA False) ''foo.io'' TypeA)) ''foo.io.'' = None \<and>
   Zones (r (RemoveRR (mkServer oneA False) ''foo.io'' TypeA)) ''bar.io.'' =
     Zones (r (mkServer oneA False)) ''bar.io.'' \<and>
   (\<exists>rep. ServeDNS asciiLib (engineMethods asciiLib 8)
            (RemoveRR (mkServer oneA False) ''foo.io'' TypeA) (mkQuery ''foo.io'' TypeCNAME) =
              Wrote rep \<and> Rcode rep = RcodeNameError) \<and>
   lookup asciiLib 8 (Zones (r (RemoveRR (mkServer oneA False) ''foo.io'' TypeA))) A ''foo.io'' =
     ([], ''foo.io.'', Inl (notFound ''foo.io.''))"
proof -
  have k: "dotted ''foo.io'' = ''foo.io.''"
    by (simp add: dotted_def HasSuffixDot_def)
  have e: "isZoneEmpty (clearRR (getZone (mkServer oneA False) ''foo.io.'') TypeA)"
    by (simp add: getZone_mkServer oneA_def clearRR_def isZoneEmpty_def zeroZone_def)
  have p: "Zones (r (mkServer oneA False)) ''foo.io.'' \<noteq> None"
    by (simp add: mkServer_def oneA_def)
  note t = RemoveRR_prunes_empty_zone [where key = "''foo.io.''" and name = "''foo.io''" and s = "mkServer oneA False"
      and rrType = TypeA and s' = "RemoveRR (mkServer oneA False) ''foo.io'' TypeA"
      and zone' = "clearRR (getZone (mkServer oneA False) ''foo.io.'') TypeA", OF k [symmetric] refl refl]
  have n: "Zones (r (RemoveRR (mkServer oneA False) ''foo.io'' TypeA)) ''foo.io.'' = None"
    using t e by blast
  have o: "Zones (r (RemoveRR (mkServer oneA False) ''foo.io'' TypeA)) ''bar.io.'' =
     Zones (r (mkServer oneA False)) ''bar.io.''"
  proof -
    have "\<forall>k. k \<noteq> ''foo.io.'' \<longrightarrow>
        Zones (r (RemoveRR (mkServer oneA False) ''foo.io'' TypeA)) k =
        Zones (r (mkServer oneA False)) k"
      using t by blast
    from this [rule_format, of "''bar.io.''"] show ?thesis by simp
  qed
  have q: "\<exists>rep. ServeDNS asciiLib (engineMethods asciiLib 8)
            (RemoveRR (mkServer oneA False) ''foo.io'' TypeA) (mkQuery ''foo.io'' TypeCNAME) =
              Wrote rep \<and> Rcode rep = RcodeNameError"
  proof -
    have "\<forall>l rm m q qs. Opcode m = OpcodeQuery \<and> Question m = q # qs \<and>
             Qclass q = ClassINET \<and> Qtype q = TypeCNAME \<and>
             ToLower l (Fqdn l (Q_Name q)) = ''foo.io.'' \<longrightarrow>
           (\<exists>rep. ServeDNS l rm (RemoveRR (mkServer oneA False) ''foo.io'' TypeA) m =
              Wrote rep \<and> Rcode rep = RcodeNameError)"
      using t e by blast
    from this [rule_format, where m = "mkQuery ''foo.io'' TypeCNAME"
        and q = "\<lparr>Q_Name = ''foo.io'', Qtype = TypeCNAME, Qclass = ClassINET\<rparr>"
        and qs = "[]" and l = asciiLib and rm = "engineMethods asciiLib 8"]
    show ?thesis
      by (simp add: mkQuery_def newMsg_def OpcodeQuery_def norm_foo_io)
  qed
  have lk: "lookup asciiLib 8 (Zones (r (RemoveRR (mkServer oneA False) ''foo.io'' TypeA))) A ''foo.io'' =
     ([], ''foo.io.'', Inl (notFound ''foo.io.''))"
  proof -
    have "\<forall>l n fld nm. ToLower l (Fqdn l nm) = ''foo.io.'' \<longrightarrow>
        lookup l n (Zones (r (RemoveRR (mkServer oneA False) ''foo.io'' TypeA))) fld nm =
          ([], ''foo.io.'', Inl (notFound ''foo.io.''))"
      using t e by blast
    from this [rule_format, where l = asciiLib and n = 8 and fld = A and nm = "''foo.io''"]
    show ?thesis by (simp add: norm_foo_io)
  qed
  show ?thesis using k e p n o q lk by blast
qed

text \<open>
  C8 as stated fails. With CNAME records added under \<open>Foo.io\<close> and under \<open>foo.io\<close>,
  removing the CNAME of \<open>Foo.io\<close> deletes the entry \<open>Foo.io.\<close>, and the CNAME query for
  \<open>Foo.io\<close> is still answered, from the zone \<open>foo.io.\<close>, with response code success. And
  after a removal that deletes the entry \<open>foo.io.\<close>, the store still holds the zone
  without records seeded under \<open>bar.io.\<close>: a PTR query for the absent \<open>foo.io.\<close> is
  answered NXDOMAIN, one for the empty \<open>bar.io.\<close> with response code success and no
  answer record.
\<close>

theorem RemoveRR_lookup_counterexample:
  "Zones (r twoCases) ''Foo.io.'' = Some (zeroZone\<lparr>CNAME := ''b.io.''\<rparr>) \<and>
   isZoneEmpty (clearRR (getZone twoCases ''Foo.io.'') TypeCNAME) \<and>
   Zones (r (RemoveRR twoCases ''Foo.io'' TypeCNAME)) ''Foo.io.'' = None \<and>
   respondsWith
     (ServeDNS asciiLib (engineMethods asciiLib 8) (RemoveRR twoCases ''Foo.io'' TypeCNAME)
        (mkQuery ''Foo.io'' TypeCNAME))
     RcodeSuccess [mkCname ''foo.io.'' ''b.io.''] \<and>
   isZoneEmpty zeroZone \<and>
   Zones (r (RemoveRR (mkServer emptySeed False) ''foo.io'' TypeA)) ''foo.io.'' = None \<and>
   Zones (r (RemoveRR (mkServer emptySeed False) ''foo.io'' TypeA)) ''bar.io.'' = Some zeroZone \<and>
   nxdomainWith
     (ServeDNS asciiLib (engineMethods asciiLib 8)
        (RemoveRR (mkServer emptySeed False) ''foo.io'' TypeA) (mkQuery ''foo.io.'' TypePTR))
     ''foo.io.'' [] \<and>
   respondsWith
     (ServeDNS asciiLib (engineMethods asciiLib 8)
        (RemoveRR (mkServer emptySeed False) ''foo.io'' TypeA) (mkQuery ''bar.io.'' TypePTR))
     RcodeSuccess []"
proof -
  let ?s = "RemoveRR twoCases ''Foo.io'' TypeCNAME"
  let ?t = "RemoveRR (mkServer emptySeed False) ''foo.io'' TypeA"
  have a: "Zones (r twoCases) ''Foo.io.'' = Some (zeroZone\<lparr>CNAME := ''b.io.''\<rparr>)"
    by (simp add: Zones_twoCases)
  have b: "isZoneEmpty (clearRR (getZone twoCases ''Foo.io.'') TypeCNAME)"
    by (simp add: getZone_def Zones_twoCases clearRR_def rrtype_defs isZoneEmpty_def zeroZone_def)
  have zs: "Zones (r ?s) k = (if k = ''foo.io.'' then Some (zeroZone\<lparr>CNAME := ''b.io.''\<rparr>) else None)"
    for k
    using b
    by (simp add: RemoveRR_def Let_def dotted_Foo_io Zones_deleteZone Zones_twoCases)
  have c: "Zones (r ?s) ''Foo.io.'' = None"
    by (simp add: zs)
  have d: "respondsWith
     (ServeDNS asciiLib (engineMethods asciiLib 8) ?s (mkQuery ''Foo.io'' TypeCNAME))
     RcodeSuccess [mkCname ''foo.io.'' ''b.io.'']"
    using CNAME_query_present [where m = "mkQuery ''Foo.io'' TypeCNAME"
        and q = "\<lparr>Q_Name = ''Foo.io'', Qtype = TypeCNAME, Qclass = ClassINET\<rparr>" and qs = "[]"
        and l = asciiLib and rm = "engineMethods asciiLib 8" and s = ?s
        and z = "zeroZone\<lparr>CNAME := ''b.io.''\<rparr>"]
    by (auto simp add: mkQuery_fields norm_Foo_io zs respondsWith_def)
  have e: "isZoneEmpty zeroZone"
    by (simp add: isZoneEmpty_def zeroZone_def)
  have te: "isZoneEmpty (clearRR (getZone (mkServer emptySeed False) ''foo.io.'') TypeA)"
    by (simp add: getZone_mkServer emptySeed_def clearRR_def isZoneEmpty_def zeroZone_def)
  have zt: "Zones (r ?t) k = (if k = ''bar.io.'' then Some zeroZone else None)" for k
    using te
    by (simp add: RemoveRR_def Let_def not_suffix_foo Zones_deleteZone mkServer_fields
        emptySeed_def)
  have f: "Zones (r ?t) ''foo.io.'' = None" by (simp add: zt)
  have g: "Zones (r ?t) ''bar.io.'' = Some zeroZone" by (simp add: zt)
  have h: "nxdomainWith
     (ServeDNS asciiLib (engineMethods asciiLib 8) ?t (mkQuery ''foo.io.'' TypePTR)) ''foo.io.'' []"
    using PTR_query_absent [where m = "mkQuery ''foo.io.'' TypePTR"
        and q = "\<lparr>Q_Name = ''foo.io.'', Qtype = TypePTR, Qclass = ClassINET\<rparr>" and qs = "[]"
        and l = asciiLib and rm = "engineMethods asciiLib 8" and s = ?t]
    by (auto simp add: mkQuery_fields zt nxdomainWith_def)
  have i: "respondsWith
     (ServeDNS asciiLib (engineMethods asciiLib 8) ?t (mkQuery ''bar.io.'' TypePTR))
     RcodeSuccess []"
    using PTR_query_present [where m = "mkQuery ''bar.io.'' TypePTR"
        and q = "\<lparr>Q_Name = ''bar.io.'', Qtype = TypePTR, Qclass = ClassINET\<rparr>" and qs = "[]"
        and l = asciiLib and rm = "engineMethods asciiLib 8" and s = ?t and z = zeroZone]
    by (auto simp add: mkQuery_fields zt respondsWith_def zeroZone_def)
  show ?thesis using a b c d e f g h i by blast
qed

end
